theory Spec2Isabelle
  imports Complex_Main "HOL-Library.AList"
begin

section \<open>ExamShield: the detection and alerting engine\<close>

text \<open>
  A shallow embedding of the decision logic of the ExamShield controller
  (\<^verbatim>\<open>respberry_pi/main.py\<close>, \<^verbatim>\<open>rf_receiver.py\<close>, \<^verbatim>\<open>utils.py\<close>,
  \<^verbatim>\<open>thermal_detection.py\<close>, \<^verbatim>\<open>alert_system.py\<close>).

  Conventions of the embedding:
  \<^item> a Python \<^verbatim>\<open>int\<close> is an \<open>int\<close>; a Python \<^verbatim>\<open>float\<close> held in a record is the
    \<open>real\<close> it denotes. The alert decision, the distance of a signal strength and the
    trilateration compute in double precision (rounding, overflow, infinities, NaN: see
    the section on double-precision numbers); the other arithmetic is taken exact;
  \<^item> every reading of the wall clock (\<^verbatim>\<open>time.time()\<close>) inside one call is the
    parameter \<open>now\<close> of that call;
  \<^item> an exception is a value \<open>Inl e\<close>; a \<^verbatim>\<open>try/except\<close> that logs and goes on is the
    branch that returns the state as it stands at the raise;
  \<^item> the object state a method mutates is passed in and returned;
  \<^item> logging and file output are left out: they change no state the model holds;
  \<^item> a leading underscore of a Python name is dropped (\<^verbatim>\<open>_rssi_to_distance\<close> is
    \<open>rssi_to_distance\<close>), and a dictionary key shared by several dictionaries gets a
    prefix per record.
\<close>

type_synonym position = "real \<times> real"

datatype py_error = IndexError | ValueError | ZeroDivisionError

subsection \<open>Python list and string primitives\<close>

text \<open>\<^verbatim>\<open>xs[-n:]\<close> for \<open>n \<ge> 0\<close>: the last \<open>n\<close> elements, all of \<open>xs\<close> when it is shorter, and
  all of \<open>xs\<close> for \<open>n = 0\<close> too, since \<^verbatim>\<open>-0\<close> is \<^verbatim>\<open>0\<close> and \<^verbatim>\<open>xs[0:]\<close> is the whole list.\<close>

definition py_tail_slice :: "nat \<Rightarrow> 'a list \<Rightarrow> 'a list" where
  "py_tail_slice n xs = (if n = 0 then xs else drop (length xs - n) xs)"

text \<open>\<^verbatim>\<open>xs[i:j]\<close> for \<open>0 \<le> i \<le> j\<close>.\<close>

definition py_slice :: "nat \<Rightarrow> nat \<Rightarrow> 'a list \<Rightarrow> 'a list" where
  "py_slice i j xs = take (j - i) (drop i xs)"

text \<open>\<^verbatim>\<open>xs[i]\<close> for \<open>i \<ge> 0\<close>: out of range it raises.\<close>

definition py_index :: "'a list \<Rightarrow> nat \<Rightarrow> py_error + 'a" where
  "py_index xs i = (if i < length xs then Inr (xs ! i) else Inl IndexError)"

definition startswith :: "string \<Rightarrow> string \<Rightarrow> bool" where
  "startswith s p = (take (length p) s = p)"

text \<open>\<^verbatim>\<open>s.split(sep)\<close> for a one-character separator: one field more than there are
  separators, empty fields kept.\<close>

fun split_on :: "char \<Rightarrow> string \<Rightarrow> string list" where
  "split_on sep [] = [[]]"
| "split_on sep (c # cs) =
     (if c = sep then [] # split_on sep cs
      else (case split_on sep cs of
              [] \<Rightarrow> [[c]]
            | f # fs \<Rightarrow> (c # f) # fs))"

text \<open>\<^verbatim>\<open>sep.join(fields)\<close>.\<close>

fun join_with :: "string \<Rightarrow> string list \<Rightarrow> string" where
  "join_with sep [] = []"
| "join_with sep [f] = f"
| "join_with sep (f # g # fs) = f @ sep @ join_with sep (g # fs)"

text \<open>\<^verbatim>\<open>int(s)\<close> on a string (a \<open>char\<close> stands for a code point below 256). The
  interpreter first turns the white space outside ASCII (here the code points 0x85 and
  0xA0) into blanks; it then skips the white space of the C locale (tab, line feed,
  vertical tab, form feed, carriage return, blank) on both sides, reads an optional sign
  and decimal digits, where single underscores may stand between digits, and raises
  \<^verbatim>\<open>ValueError\<close> on anything else. The separators 0x1C to 0x1F are not skipped. (The
  interpreter's limit on the number of digits is outside the model.)\<close>

definition is_space :: "char \<Rightarrow> bool" where
  "is_space c = (c \<in> set [CHR '' '', CHR 0x09, CHR 0x0A, CHR 0x0B, CHR 0x0C, CHR 0x0D])"

definition blank_latin1_space :: "char \<Rightarrow> char" where
  "blank_latin1_space c = (if c = CHR 0x85 \<or> c = CHR 0xA0 then CHR '' '' else c)"

definition strip :: "string \<Rightarrow> string" where
  "strip s = rev (dropWhile is_space (rev (dropWhile is_space s)))"

definition digit_val :: "char \<Rightarrow> nat option" where
  "digit_val c =
     map_of [(CHR ''0'', 0), (CHR ''1'', 1), (CHR ''2'', 2), (CHR ''3'', 3), (CHR ''4'', 4),
             (CHR ''5'', 5), (CHR ''6'', 6), (CHR ''7'', 7), (CHR ''8'', 8), (CHR ''9'', 9)] c"

fun parse_digits :: "string \<Rightarrow> nat \<Rightarrow> nat option" where
  "parse_digits [] acc = Some acc"
| "parse_digits (c # cs) acc =
     (if c = CHR ''_'' then
        (case cs of
           [] \<Rightarrow> None
         | d # ds \<Rightarrow> (case digit_val d of
                       None \<Rightarrow> None
                     | Some v \<Rightarrow> parse_digits ds (acc * 10 + v)))
      else (case digit_val c of
              None \<Rightarrow> None
            | Some v \<Rightarrow> parse_digits cs (acc * 10 + v)))"

definition parse_unsigned :: "string \<Rightarrow> nat option" where
  "parse_unsigned s =
     (case s of
        [] \<Rightarrow> None
      | d # ds \<Rightarrow> (case digit_val d of None \<Rightarrow> None | Some v \<Rightarrow> parse_digits ds v))"

definition py_int :: "string \<Rightarrow> py_error + int" where
  "py_int s =
     (let t = strip (map blank_latin1_space s);
          r = (case t of
                 [] \<Rightarrow> None
               | c # cs \<Rightarrow>
                   if c = CHR ''-'' then map_option (\<lambda>n. - int n) (parse_unsigned cs)
                   else if c = CHR ''+'' then map_option int (parse_unsigned cs)
                   else map_option int (parse_unsigned t))
      in case r of None \<Rightarrow> Inl ValueError | Some v \<Rightarrow> Inr v)"

text \<open>\<^verbatim>\<open>str(n)\<close> of an integer, as an f-string prints it.\<close>

fun str_nat :: "nat \<Rightarrow> string" where
  "str_nat n =
     (if n < 10 then [''0123456789'' ! n]
      else str_nat (n div 10) @ [''0123456789'' ! (n mod 10)])"

definition str_int :: "int \<Rightarrow> string" where
  "str_int i = (if i < 0 then CHR ''-'' # str_nat (nat (- i)) else str_nat (nat i))"

text \<open>\<^verbatim>\<open>int(x)\<close> of a float: truncation towards zero.\<close>

definition trunc :: "real \<Rightarrow> int" where
  "trunc x = (if 0 \<le> x then \<lfloor>x\<rfloor> else \<lceil>x\<rceil>)"

subsection \<open>Double-precision numbers\<close>

text \<open>A Python \<^verbatim>\<open>float\<close> is an IEEE 754 binary64 number: a finite value (given by the
  real it denotes; the sign of a zero is not kept, no operation below can tell the two
  zeros apart), an infinity or a NaN. Where the rounding of an operation decides what
  the code does, the operation is the rounded one: its exact result goes to the nearest
  double, a tie to the one with the even significand.\<close>

datatype pyfloat = Fin real | PInf | NInf | NaN

definition round_half_even :: "real \<Rightarrow> int" where
  "round_half_even t =
     (let f = \<lfloor>t\<rfloor>
      in if t - of_int f < 1 / 2 then f
         else if 1 / 2 < t - of_int f then f + 1
         else if even f then f else f + 1)"

text \<open>The exponent of the unit in the last place at \<open>x\<close>: 52 below the exponent of \<open>x\<close>,
  and never below that of the subnormal numbers.\<close>

definition ulp_exponent :: "real \<Rightarrow> int" where
  "ulp_exponent x = max (\<lfloor>log 2 \<bar>x\<bar>\<rfloor> - 52) (- 1074)"

definition nearest_double :: "real \<Rightarrow> real" where
  "nearest_double x =
     (if x = 0 then 0
      else of_int (round_half_even (x / 2 powi ulp_exponent x)) * 2 powi ulp_exponent x)"

text \<open>Rounding with overflow: a result that rounds to \<open>2 ^ 1024\<close> or beyond is an
  infinity.\<close>

definition fl_round :: "real \<Rightarrow> pyfloat" where
  "fl_round x =
     (let y = nearest_double x
      in if 2 ^ 1024 \<le> y then PInf else if y \<le> - (2 ^ 1024) then NInf else Fin y)"

fun fl_neg :: "pyfloat \<Rightarrow> pyfloat" where
  "fl_neg (Fin x) = Fin (- x)"
| "fl_neg PInf = NInf"
| "fl_neg NInf = PInf"
| "fl_neg NaN = NaN"

fun fl_add :: "pyfloat \<Rightarrow> pyfloat \<Rightarrow> pyfloat" where
  "fl_add (Fin x) (Fin y) = fl_round (x + y)"
| "fl_add NaN b = NaN"
| "fl_add a NaN = NaN"
| "fl_add PInf NInf = NaN"
| "fl_add NInf PInf = NaN"
| "fl_add PInf b = PInf"
| "fl_add NInf b = NInf"
| "fl_add a PInf = PInf"
| "fl_add a NInf = NInf"

definition fl_sub :: "pyfloat \<Rightarrow> pyfloat \<Rightarrow> pyfloat" where
  "fl_sub a b = fl_add a (fl_neg b)"

text \<open>The quotient by a divisor other than zero (Python raises on a zero divisor
  before it divides).\<close>

fun fl_div :: "pyfloat \<Rightarrow> pyfloat \<Rightarrow> pyfloat" where
  "fl_div (Fin x) (Fin y) = fl_round (x / y)"
| "fl_div NaN b = NaN"
| "fl_div a NaN = NaN"
| "fl_div (Fin x) b = Fin 0"
| "fl_div PInf (Fin y) = (if 0 < y then PInf else NInf)"
| "fl_div NInf (Fin y) = (if 0 < y then NInf else PInf)"
| "fl_div a b = NaN"

text \<open>Comparisons: exact, and false as soon as a NaN takes part.\<close>

fun fl_less :: "pyfloat \<Rightarrow> pyfloat \<Rightarrow> bool" where
  "fl_less (Fin x) (Fin y) = (x < y)"
| "fl_less NaN b = False"
| "fl_less a NaN = False"
| "fl_less a NInf = False"
| "fl_less PInf b = False"
| "fl_less a b = True"

definition fl_le :: "pyfloat \<Rightarrow> pyfloat \<Rightarrow> bool" where
  "fl_le a b = (a \<noteq> NaN \<and> (a = b \<or> fl_less a b))"

text \<open>\<^verbatim>\<open>sum(xs)\<close> on floats as the interpreter computed it up to version 3.11: from
  0, one rounded addition per element, left to right.\<close>

definition float_sum :: "pyfloat list \<Rightarrow> pyfloat" where
  "float_sum xs = foldl fl_add (Fin 0) xs"

text \<open>\<^verbatim>\<open>sum(xs)\<close> on floats from version 3.12 on: the rounding errors of the additions
  are collected on the side (Neumaier) and added at the end, when they are finite and
  not zero.\<close>

fun fl_abs :: "pyfloat \<Rightarrow> pyfloat" where
  "fl_abs (Fin x) = Fin \<bar>x\<bar>"
| "fl_abs NaN = NaN"
| "fl_abs a = PInf"

definition compensated_step :: "pyfloat \<times> pyfloat \<Rightarrow> pyfloat \<Rightarrow> pyfloat \<times> pyfloat" where
  "compensated_step acc x =
     (let f_result = fst acc; c = snd acc;
          t = fl_add f_result x;
          c' = (if fl_le (fl_abs x) (fl_abs f_result)
                then fl_add c (fl_add (fl_sub f_result t) x)
                else fl_add c (fl_add (fl_sub x t) f_result))
      in (t, c'))"

definition compensated_sum :: "pyfloat list \<Rightarrow> pyfloat" where
  "compensated_sum xs =
     (let acc = foldl compensated_step (Fin 0, Fin 0) xs;
          f_result = fst acc; c = snd acc
      in case c of
           Fin v \<Rightarrow> if v \<noteq> 0 then fl_add f_result c else f_result
         | _ \<Rightarrow> f_result)"

subsection \<open>utils.py: trilateration and correlation\<close>

text \<open>\<^verbatim>\<open>trilaterate(distances, positions)\<close>: the first three scanners; a zero
  denominator raises \<^verbatim>\<open>ZeroDivisionError\<close> in the division for \<open>x\<close>, which the
  function catches and turns into \<^verbatim>\<open>None\<close>.\<close>

definition trilaterate :: "real list \<Rightarrow> position list \<Rightarrow> position option" where
  "trilaterate distances scanners =
     (if length distances < 3 \<or> length scanners < 3 then None
      else
        let (x1, y1) = scanners ! 0; (x2, y2) = scanners ! 1; (x3, y3) = scanners ! 2;
            r1 = distances ! 0; r2 = distances ! 1; r3 = distances ! 2;
            A = 2 * (x2 - x1);
            B = 2 * (y2 - y1);
            C = r1\<^sup>2 - r2\<^sup>2 - x1\<^sup>2 + x2\<^sup>2 - y1\<^sup>2 + y2\<^sup>2;
            D = 2 * (x3 - x2);
            E = 2 * (y3 - y2);
            F = r2\<^sup>2 - r3\<^sup>2 - x2\<^sup>2 + x3\<^sup>2 - y2\<^sup>2 + y3\<^sup>2
        in if E * A - B * D = 0 then None
           else if A * E - B * D = 0 then None
           else Some ((C * E - F * B) / (E * A - B * D), (A * F - D * C) / (A * E - B * D)))"

text \<open>A thermal hotspot as \<^verbatim>\<open>ThermalDetection.detect_hotspots\<close> reports it (the contour
  itself is left out). The centroid is a pair of integers (pixel coordinates).\<close>

record hotspot =
  hs_position :: "int \<times> int"
  hs_area :: real
  hs_avg_temp :: real
  hs_confidence :: real
  hs_frame_id :: nat
  hs_timestamp :: real

definition pixel :: "int \<times> int \<Rightarrow> position" where
  "pixel p = (real_of_int (fst p), real_of_int (snd p))"

record correlation =
  rf_position :: position
  thermal_position :: "int \<times> int"
  correlation_distance :: real
  hotspot_area :: real
  corr_confidence :: real

text \<open>The inner loop of \<^verbatim>\<open>correlate_rf_thermal\<close> over the hotspots, for one RF position.
  The division by a zero threshold raises, and nothing in \<^verbatim>\<open>utils.py\<close> catches it.\<close>

fun correlate_one :: "position \<Rightarrow> hotspot list \<Rightarrow> real \<Rightarrow> py_error + correlation list" where
  "correlate_one rf_pos [] threshold = Inr []"
| "correlate_one rf_pos (h # hs) threshold =
     (let thermal_pos = hs_position h;
          distance = sqrt ((fst rf_pos - real_of_int (fst thermal_pos))\<^sup>2
                         + (snd rf_pos - real_of_int (snd thermal_pos))\<^sup>2)
      in if distance \<le> threshold then
           (if threshold = 0 then Inl ZeroDivisionError
            else (case correlate_one rf_pos hs threshold of
                    Inl e \<Rightarrow> Inl e
                  | Inr cs \<Rightarrow>
                      Inr (\<lparr>rf_position = rf_pos, thermal_position = thermal_pos,
                            correlation_distance = distance, hotspot_area = hs_area h,
                            corr_confidence = 1 - distance / threshold\<rparr> # cs)))
         else correlate_one rf_pos hs threshold)"

fun correlate_rf_thermal ::
  "position option list \<Rightarrow> hotspot list \<Rightarrow> real \<Rightarrow> py_error + correlation list" where
  "correlate_rf_thermal [] thermal_hotspots threshold = Inr []"
| "correlate_rf_thermal (None # rest) thermal_hotspots threshold =
     correlate_rf_thermal rest thermal_hotspots threshold"
| "correlate_rf_thermal (Some rf_pos # rest) thermal_hotspots threshold =
     (case correlate_one rf_pos thermal_hotspots threshold of
        Inl e \<Rightarrow> Inl e
      | Inr cs \<Rightarrow> (case correlate_rf_thermal rest thermal_hotspots threshold of
                    Inl e \<Rightarrow> Inl e
                  | Inr ds \<Rightarrow> Inr (cs @ ds)))"

subsection \<open>thermal_detection.py: hotspot confidence\<close>

text \<open>The OpenCV pipeline (normalise, blur, threshold, morphology, contour extraction)
  is a library: its result, the contours with their measurements, is the input here. A
  contour comes with its area (\<^verbatim>\<open>cv2.contourArea\<close>), its moments and the mean
  temperature of the frame under its mask.\<close>

record contour_data =
  ct_area :: real
  ct_m00 :: real
  ct_m10 :: real
  ct_m01 :: real
  ct_avg_temp :: real

record frame_info =
  frame_id :: nat
  frame_timestamp :: real

record thermal_config =
  hotspot_min_size :: real
  hotspot_max_size :: real

text \<open>Lines 205 to 213 of \<^verbatim>\<open>detect_hotspots\<close>: the value stored under
  \<^verbatim>\<open>'confidence'\<close>.\<close>

definition hotspot_confidence :: "real \<Rightarrow> real \<Rightarrow> real" where
  "hotspot_confidence avg_temp area =
     (let temp_confidence = min ((avg_temp - 25) / 15) 1;
          size_confidence = 1 - \<bar>area - 10\<bar> / 10;
          confidence = (temp_confidence + size_confidence) / 2
      in max (1 / 10) confidence)"

text \<open>The confidence as the specification words it, for comparison: the mean of the
  two component confidences, each clamped to the unit interval.\<close>

definition clamp :: "real \<Rightarrow> real \<Rightarrow> real \<Rightarrow> real" where
  "clamp x lo hi = max lo (min hi x)"

definition spec_hotspot_confidence :: "real \<Rightarrow> real \<Rightarrow> real" where
  "spec_hotspot_confidence avg_temp area =
     (clamp ((avg_temp - 25) / 15) 0 1 + clamp (1 - \<bar>area - 10\<bar> / 10) 0 1) / 2"

text \<open>The body of the loop over the contours: the area filter, the guard on
  \<^verbatim>\<open>m00\<close>, the centroid and the hotspot record.\<close>

definition hotspot_of_contour :: "thermal_config \<Rightarrow> frame_info \<Rightarrow> contour_data \<Rightarrow> hotspot option" where
  "hotspot_of_contour cfg fd c =
     (let area = ct_area c
      in if hotspot_min_size cfg \<le> area \<and> area \<le> hotspot_max_size cfg then
           (if ct_m00 c \<noteq> 0 then
              Some \<lparr>hs_position = (trunc (ct_m10 c / ct_m00 c), trunc (ct_m01 c / ct_m00 c)),
                    hs_area = area,
                    hs_avg_temp = ct_avg_temp c,
                    hs_confidence = hotspot_confidence (ct_avg_temp c) area,
                    hs_frame_id = frame_id fd,
                    hs_timestamp = frame_timestamp fd\<rparr>
            else None)
         else None)"

text \<open>\<^verbatim>\<open>detect_hotspots\<close>: no frame gives the empty list; otherwise the hotspots of
  the surviving contours, sorted by descending confidence (Python's sort is stable).\<close>

definition detect_hotspots :: "thermal_config \<Rightarrow> (frame_info \<times> contour_data list) option \<Rightarrow> hotspot list" where
  "detect_hotspots cfg frame_data =
     (case frame_data of
        None \<Rightarrow> []
      | Some (fd, contours) \<Rightarrow>
          sort_key (\<lambda>h. - hs_confidence h) (List.map_filter (hotspot_of_contour cfg fd) contours))"

subsection \<open>rf_receiver.py: scanner lines, device tracks, positions\<close>

record scan_observation =
  esp32_id :: nat
  obs_mac_address :: string
  rssi :: int
  device_type :: string
  obs_timestamp :: real
  scanner_position :: position

record device_track =
  first_seen :: real
  last_seen :: real
  detections :: "scan_observation list"
  estimated_position :: "position option"

text \<open>\<^verbatim>\<open>self.esp32_positions\<close>, set in the constructor.\<close>

definition esp32_positions :: "position list" where
  "esp32_positions = [(0, 0), (100, 0), (0, 100), (100, 100)]"

text \<open>The body of the \<^verbatim>\<open>try\<close> block of \<^verbatim>\<open>_parse_esp32_data\<close>: \<open>Inr None\<close> when a guard
  skips the line, \<open>Inr (Some obs)\<close> when it reaches \<^verbatim>\<open>data_queue.put\<close>, \<open>Inl e\<close> when a
  statement before the \<^verbatim>\<open>put\<close> raises. The built-in \<^verbatim>\<open>int\<close> is the parameter
  \<open>int_of\<close>; \<open>py_int\<close> above is the one the examples run.\<close>

definition parse_line ::
  "(string \<Rightarrow> py_error + int) \<Rightarrow> nat \<Rightarrow> real \<Rightarrow> string \<Rightarrow> py_error + scan_observation option" where
  "parse_line int_of scanner now data_line =
     (if startswith data_line ''DEVICE:'' then
        (let parts = split_on CHR '':'' data_line
         in if 4 \<le> length parts then
              (let mac_address = join_with '':'' (py_slice 1 7 parts)
               in case py_index parts 7 of
                    Inl e \<Rightarrow> Inl e
                  | Inr field \<Rightarrow>
                      (case int_of field of
                         Inl e \<Rightarrow> Inl e
                       | Inr rssi_value \<Rightarrow>
                           (let kind = (if 8 < length parts then parts ! 8 else ''Unknown'')
                            in case py_index esp32_positions scanner of
                                 Inl e \<Rightarrow> Inl e
                               | Inr pos \<Rightarrow>
                                   Inr (Some \<lparr>esp32_id = scanner,
                                              obs_mac_address = mac_address,
                                              rssi = rssi_value,
                                              device_type = kind,
                                              obs_timestamp = now,
                                              scanner_position = pos\<rparr>))))
            else Inr None)
      else Inr None)"

text \<open>\<^verbatim>\<open>_parse_esp32_data\<close> on the queue of observations: the \<^verbatim>\<open>except\<close> clause logs
  and returns, so a raise leaves the queue as it was.\<close>

definition parse_esp32_data ::
  "(string \<Rightarrow> py_error + int) \<Rightarrow> nat \<Rightarrow> real \<Rightarrow> string \<Rightarrow> scan_observation list \<Rightarrow> scan_observation list" where
  "parse_esp32_data int_of scanner now data_line data_queue =
     (case parse_line int_of scanner now data_line of
        Inl e \<Rightarrow> data_queue
      | Inr None \<Rightarrow> data_queue
      | Inr (Some obs) \<Rightarrow> data_queue @ [obs])"

definition rssi_to_distance :: "int \<Rightarrow> real" where
  "rssi_to_distance r =
     (if r = 0 then - 1
      else
        let n = 2; A = - 30;
            distance = 10 powr ((A - real_of_int r) / (10 * n))
        in max distance (1 / 10))"

text \<open>The dictionary \<^verbatim>\<open>esp32_rssi\<close> of \<^verbatim>\<open>_estimate_device_position\<close>, in insertion
  order: per scanner the first observation no later one beats in signal strength.\<close>

fun strongest_per_scanner ::
  "scan_observation list \<Rightarrow> (nat \<times> scan_observation) list \<Rightarrow> (nat \<times> scan_observation) list" where
  "strongest_per_scanner [] esp32_rssi = esp32_rssi"
| "strongest_per_scanner (d # ds) esp32_rssi =
     strongest_per_scanner ds
       (case map_of esp32_rssi (esp32_id d) of
          None \<Rightarrow> AList.update (esp32_id d) d esp32_rssi
        | Some best \<Rightarrow>
            if rssi best < rssi d then AList.update (esp32_id d) d esp32_rssi
            else esp32_rssi)"

definition estimate_device_position :: "device_track \<Rightarrow> device_track" where
  "estimate_device_position device =
     (let esp32_rssi = strongest_per_scanner (detections device) []
      in if 3 \<le> length esp32_rssi then
           (let chosen = List.map_filter (map_of esp32_rssi) (sort (map fst esp32_rssi));
                scanners = map scanner_position chosen;
                distances = map (\<lambda>d. rssi_to_distance (rssi d)) chosen
            in case trilaterate distances scanners of
                 None \<Rightarrow> device
               | Some estimated_pos \<Rightarrow> device\<lparr>estimated_position := Some estimated_pos\<rparr>)
         else device)"

text \<open>\<^verbatim>\<open>detected_devices\<close> is a dictionary in insertion order: an association list.\<close>

definition update_device_tracking ::
  "scan_observation \<Rightarrow> (string \<times> device_track) list \<Rightarrow> (string \<times> device_track) list" where
  "update_device_tracking detection detected_devices =
     (let mac = obs_mac_address detection;
          device0 = (case map_of detected_devices mac of
                       None \<Rightarrow> \<lparr>first_seen = obs_timestamp detection,
                                 last_seen = obs_timestamp detection,
                                 detections = [], estimated_position = None\<rparr>
                     | Some dev \<Rightarrow> dev);
          device1 = device0\<lparr>last_seen := obs_timestamp detection,
                            detections := detections device0 @ [detection]\<rparr>;
          cutoff_time = obs_timestamp detection - 30;
          device2 = device1\<lparr>detections :=
                       filter (\<lambda>d. cutoff_time < obs_timestamp d) (detections device1)\<rparr>
      in AList.update mac (estimate_device_position device2) detected_devices)"

definition get_detected_devices ::
  "real \<Rightarrow> (string \<times> device_track) list \<Rightarrow> (string \<times> device_track) list" where
  "get_detected_devices current_time detected_devices =
     filter (\<lambda>(mac, device). current_time - last_seen device \<le> 10) detected_devices"

definition calculate_position_confidence :: "device_track \<Rightarrow> real" where
  "calculate_position_confidence device =
     (let ds = detections device
      in if ds = [] then 0
         else
           let unique_esp32s = length (remdups (map esp32_id ds));
               base_confidence = min (real unique_esp32s / 4) 1;
               avg_rssi = real_of_int (sum_list (map rssi ds)) / real (length ds);
               rssi_factor = max (1 / 10) (min 1 ((avg_rssi + 100) / 50))
           in base_confidence * rssi_factor)"

record rf_estimate =
  mac_address :: string
  est_position :: position
  est_confidence :: real

definition get_estimated_positions :: "real \<Rightarrow> (string \<times> device_track) list \<Rightarrow> rf_estimate list" where
  "get_estimated_positions current_time detected_devices =
     List.map_filter
       (\<lambda>(mac, device).
          case estimated_position device of
            None \<Rightarrow> None
          | Some pos \<Rightarrow> Some \<lparr>mac_address = mac, est_position = pos,
                             est_confidence = calculate_position_confidence device\<rparr>)
       (get_detected_devices current_time detected_devices)"

subsection \<open>alert_system.py: the alert queue and the emergency stop\<close>

datatype alert_kind = device_detected | high_confidence | test_alert

record alert_data =
  target_position :: "position option"
  alert_type :: alert_kind
  duration :: real
  alert_timestamp :: real

datatype gpio_level = LOW | HIGH

text \<open>The state of an \<^verbatim>\<open>AlertSystem\<close> object. The GPIO library is outside the
  repository: the state of the board is a value of a type \<open>'hw\<close>, and \<^verbatim>\<open>GPIO.output\<close> is
  a parameter \<open>gpio_output pin level\<close> of the functions that call it, which gives the
  new state of the board, or \<open>None\<close> when the call raises.\<close>

record 'hw alert_system =
  laser_pin :: nat
  buzzer_pin :: nat
  led_pin :: nat
  alert_active :: bool
  current_target :: "position option"
  alert_queue :: "alert_data list"
  current_x_angle :: int
  current_y_angle :: int
  board :: 'hw

type_synonym 'hw gpio_driver = "nat \<Rightarrow> gpio_level \<Rightarrow> 'hw \<Rightarrow> 'hw option"

text \<open>\<^verbatim>\<open>trigger_alert\<close>, on the queue: the default duration is resolved by the caller.\<close>

definition trigger_alert :: "real \<Rightarrow> position option \<Rightarrow> alert_kind \<Rightarrow> real \<Rightarrow> alert_data list \<Rightarrow> alert_data list" where
  "trigger_alert now target kind dur queue =
     queue @ [\<lparr>target_position = target, alert_type = kind, duration = dur,
               alert_timestamp = now\<rparr>]"

text \<open>The loop \<^verbatim>\<open>while not self.alert_queue.empty(): self.alert_queue.get_nowait()\<close>.\<close>

fun drain_queue :: "'a list \<Rightarrow> 'a list" where
  "drain_queue [] = []"
| "drain_queue (a # queue) = drain_queue queue"

text \<open>\<^verbatim>\<open>emergency_stop\<close>: three writes, the queue, the two fields; all inside one
  \<^verbatim>\<open>try\<close>, whose \<^verbatim>\<open>except\<close> logs and returns. A write that raises ends the method with
  the state as it stands.\<close>

definition emergency_stop :: "'hw gpio_driver \<Rightarrow> 'hw alert_system \<Rightarrow> 'hw alert_system" where
  "emergency_stop gpio_output s =
     (case gpio_output (laser_pin s) LOW (board s) of
        None \<Rightarrow> s
      | Some b1 \<Rightarrow>
          (case gpio_output (buzzer_pin s) LOW b1 of
             None \<Rightarrow> s\<lparr>board := b1\<rparr>
           | Some b2 \<Rightarrow>
               (case gpio_output (led_pin s) LOW b2 of
                  None \<Rightarrow> s\<lparr>board := b2\<rparr>
                | Some b3 \<Rightarrow>
                    s\<lparr>board := b3,
                      alert_queue := drain_queue (alert_queue s),
                      alert_active := False,
                      current_target := None\<rparr>)))"



subsection \<open>main.py: the detection tracker\<close>

datatype detection_kind = rf_thermal_correlation | rf_only | thermal_only

record detection =
  first_detected :: real
  last_updated :: real
  positions :: "position list"
  detection_type :: detection_kind
  confidence_scores :: "real list"
  alert_triggered :: bool

record detection_config =
  correlation_threshold :: real
  confidence_threshold :: real
  min_detection_time :: real
  alert_duration :: real

text \<open>The tracker's state: \<^verbatim>\<open>self.active_detections\<close> and the queue of the alert
  system it feeds.\<close>

record tracker =
  active_detections :: "string \<rightharpoonup> detection"
  alerts :: "alert_data list"

text \<open>\<^verbatim>\<open>should_trigger_alert\<close>. The elapsed time and the mean of the last three scores
  are computed in double precision; the built-in \<^verbatim>\<open>sum\<close>, whose algorithm depends on
  the version of the interpreter, is the parameter \<open>py_sum\<close>.\<close>

definition should_trigger_alert ::
  "(pyfloat list \<Rightarrow> pyfloat) \<Rightarrow> detection_config \<Rightarrow> real \<Rightarrow> detection \<Rightarrow> bool" where
  "should_trigger_alert py_sum cfg now d =
     (if alert_triggered d then False
      else
        let detection_duration = fl_sub (Fin now) (Fin (first_detected d))
        in if fl_less detection_duration (Fin (min_detection_time cfg)) then False
           else if length (confidence_scores d) < 3 then False
           else
             let avg_confidence =
                   fl_div (py_sum (map Fin (py_tail_slice 3 (confidence_scores d)))) (Fin 3)
             in fl_le (Fin (confidence_threshold cfg)) avg_confidence)"

text \<open>\<^verbatim>\<open>trigger_device_alert(device_id, detection)\<close>, where \<open>detection\<close> is the record
  stored under \<open>device_id\<close>.\<close>

definition trigger_device_alert ::
  "(pyfloat list \<Rightarrow> pyfloat) \<Rightarrow> detection_config \<Rightarrow> real \<Rightarrow> string \<Rightarrow> tracker \<Rightarrow> tracker" where
  "trigger_device_alert py_sum cfg now device_id st =
     (case active_detections st device_id of
        None \<Rightarrow> st
      | Some d \<Rightarrow>
          if positions d = [] then st
          else
            let latest_position = last (positions d);
                avg_confidence =
                  fl_div (py_sum (map Fin (py_tail_slice 3 (confidence_scores d)))) (Fin 3);
                kind = (if fl_less (fl_round (8 / 10)) avg_confidence then high_confidence
                        else device_detected)
            in st\<lparr>alerts := trigger_alert now (Some latest_position) kind (alert_duration cfg)
                               (alerts st),
                  active_detections :=
                    (active_detections st)(device_id \<mapsto> d\<lparr>alert_triggered := True\<rparr>)\<rparr>)"

definition new_detection :: "real \<Rightarrow> detection_kind \<Rightarrow> detection" where
  "new_detection now kind =
     \<lparr>first_detected = now, last_updated = now, positions = [], detection_type = kind,
      confidence_scores = [], alert_triggered = False\<rparr>"

text \<open>The record under \<open>device_id\<close>, created when absent, as all three handlers do.\<close>

definition get_or_create :: "real \<Rightarrow> detection_kind \<Rightarrow> (string \<rightharpoonup> detection) \<Rightarrow> string \<Rightarrow> detection" where
  "get_or_create now kind dets device_id =
     (case dets device_id of None \<Rightarrow> new_detection now kind | Some d \<Rightarrow> d)"

text \<open>The list comprehension of \<^verbatim>\<open>handle_correlation\<close> (lines 259 to 262): position \<open>i\<close>
  of \<open>n\<close> stays when \<^verbatim>\<open>last_updated - (n - i) <= 30\<close>.\<close>

definition keep_recent_positions :: "real \<Rightarrow> 'a list \<Rightarrow> 'a list" where
  "keep_recent_positions updated ps =
     map snd (filter (\<lambda>(i, pos). updated - (real (length ps) - real i) \<le> 30)
                     (enumerate 0 ps))"

text \<open>The test and the call every handler ends with; the tick runs with the summation
  \<open>float_sum\<close>.\<close>

definition check_alert :: "detection_config \<Rightarrow> real \<Rightarrow> string \<Rightarrow> tracker \<Rightarrow> tracker" where
  "check_alert cfg now device_id st =
     (case active_detections st device_id of
        None \<Rightarrow> st
      | Some d \<Rightarrow>
          if should_trigger_alert float_sum cfg now d
          then trigger_device_alert float_sum cfg now device_id st
          else st)"

definition handle_correlation ::
  "detection_config \<Rightarrow> real \<Rightarrow> correlation \<Rightarrow> rf_estimate list \<Rightarrow> tracker \<Rightarrow> tracker" where
  "handle_correlation cfg now corr rf_positions st =
     (case find (\<lambda>pos_data. est_position pos_data = rf_position corr) rf_positions of
        None \<Rightarrow> st
      | Some rf_device \<Rightarrow>
          if confidence_threshold cfg \<le> corr_confidence corr then
            (let device_id = mac_address rf_device;
                 d0 = get_or_create now rf_thermal_correlation (active_detections st) device_id;
                 d1 = d0\<lparr>last_updated := now,
                         positions := positions d0 @ [pixel (thermal_position corr)],
                         confidence_scores := confidence_scores d0 @ [corr_confidence corr]\<rparr>;
                 d2 = d1\<lparr>positions := keep_recent_positions (last_updated d1) (positions d1)\<rparr>;
                 d3 = d2\<lparr>confidence_scores :=
                           py_tail_slice (length (positions d2)) (confidence_scores d2)\<rparr>
             in check_alert cfg now device_id
                  (st\<lparr>active_detections := (active_detections st)(device_id \<mapsto> d3)\<rparr>))
          else st)"

text \<open>The three lines both other handlers share: stamp, append a position, append a
  confidence.\<close>

definition append_evidence ::
  "detection_config \<Rightarrow> real \<Rightarrow> detection_kind \<Rightarrow> string \<Rightarrow> position \<Rightarrow> real \<Rightarrow> tracker \<Rightarrow> tracker" where
  "append_evidence cfg now kind device_id pos confidence st =
     (let d0 = get_or_create now kind (active_detections st) device_id;
          d1 = d0\<lparr>last_updated := now,
                  positions := positions d0 @ [pos],
                  confidence_scores := confidence_scores d0 @ [confidence]\<rparr>
      in check_alert cfg now device_id
           (st\<lparr>active_detections := (active_detections st)(device_id \<mapsto> d1)\<rparr>))"

definition rf_only_step :: "detection_config \<Rightarrow> real \<Rightarrow> position list \<Rightarrow> rf_estimate \<Rightarrow> tracker \<Rightarrow> tracker" where
  "rf_only_step cfg now correlated_rf_positions pos_data st =
     (if est_position pos_data \<notin> set correlated_rf_positions then
        (let device_id = mac_address pos_data;
             pos = est_position pos_data;
             confidence = est_confidence pos_data * (7 / 10)
         in if confidence_threshold cfg \<le> confidence then
              append_evidence cfg now rf_only device_id pos confidence st
            else st)
      else st)"

definition handle_rf_only_detections ::
  "detection_config \<Rightarrow> real \<Rightarrow> rf_estimate list \<Rightarrow> correlation list \<Rightarrow> tracker \<Rightarrow> tracker" where
  "handle_rf_only_detections cfg now rf_positions correlations st =
     fold (rf_only_step cfg now (map rf_position correlations)) rf_positions st"

definition thermal_device_id :: "int \<times> int \<Rightarrow> string" where
  "thermal_device_id p = ''thermal_'' @ str_int (fst p) @ ''_'' @ str_int (snd p)"

definition thermal_only_step :: "detection_config \<Rightarrow> real \<Rightarrow> (int \<times> int) list \<Rightarrow> hotspot \<Rightarrow> tracker \<Rightarrow> tracker" where
  "thermal_only_step cfg now correlated_thermal_positions h st =
     (if hs_position h \<notin> set correlated_thermal_positions then
        (let device_id = thermal_device_id (hs_position h);
             pos = pixel (hs_position h);
             confidence = hs_confidence h * (6 / 10)
         in if confidence_threshold cfg \<le> confidence then
              append_evidence cfg now thermal_only device_id pos confidence st
            else st)
      else st)"

definition handle_thermal_only_detections ::
  "detection_config \<Rightarrow> real \<Rightarrow> hotspot list \<Rightarrow> correlation list \<Rightarrow> tracker \<Rightarrow> tracker" where
  "handle_thermal_only_detections cfg now thermal_hotspots correlations st =
     fold (thermal_only_step cfg now (map thermal_position correlations)) thermal_hotspots st"

text \<open>\<^verbatim>\<open>cleanup_old_detections\<close>: the keys whose record is older than the timeout are
  collected (\<^verbatim>\<open>expired_detections\<close>), then deleted.\<close>

definition expired_detections :: "real \<Rightarrow> (string \<rightharpoonup> detection) \<Rightarrow> string set" where
  "expired_detections current_time dets =
     {device_id. case dets device_id of
                   None \<Rightarrow> False
                 | Some d \<Rightarrow> 30 < current_time - last_updated d}"

definition cleanup_old_detections :: "real \<Rightarrow> (string \<rightharpoonup> detection) \<Rightarrow> (string \<rightharpoonup> detection)" where
  "cleanup_old_detections current_time dets =
     dets |` (- expired_detections current_time dets)"

text \<open>One detection tick, \<^verbatim>\<open>process_detections\<close>; an exception of the correlation is
  caught by the \<^verbatim>\<open>except\<close> clause of the tick, which then changes nothing.\<close>

definition process_detections ::
  "detection_config \<Rightarrow> real \<Rightarrow> rf_estimate list \<Rightarrow> hotspot list \<Rightarrow> tracker \<Rightarrow> tracker" where
  "process_detections cfg now rf_positions thermal_hotspots st =
     (if rf_positions = [] \<and> thermal_hotspots = [] then st
      else
        (case correlate_rf_thermal (map (\<lambda>pos_data. Some (est_position pos_data)) rf_positions)
                thermal_hotspots (correlation_threshold cfg) of
           Inl e \<Rightarrow> st
         | Inr correlations \<Rightarrow>
             (let st1 = fold (\<lambda>corr. handle_correlation cfg now corr rf_positions) correlations st;
                  st2 = handle_rf_only_detections cfg now rf_positions correlations st1;
                  st3 = handle_thermal_only_detections cfg now thermal_hotspots correlations st2
              in st3\<lparr>active_detections :=
                       cleanup_old_detections now (active_detections st3)\<rparr>)))"

text \<open>The invariant of the data model: in every record the positions and the confidence
  scores have the same length.\<close>

definition parallel_windows :: "tracker \<Rightarrow> bool" where
  "parallel_windows st =
     (\<forall>device_id d. active_detections st device_id = Some d \<longrightarrow>
        length (positions d) = length (confidence_scores d))"

section \<open>Properties\<close>

subsection \<open>Rounding to double precision\<close>

lemma two_powr_int: "(2::real) powr (real_of_int k) = 2 powi k"
  by (rule powr_real_of_int') simp_all

lemma floor_log2_eq:
  assumes "2 powi k \<le> \<bar>x\<bar>" and "\<bar>x\<bar> < 2 powi (k + 1)"
  shows "\<lfloor>log 2 \<bar>x\<bar>\<rfloor> = k"
proof -
  have pos: "0 < \<bar>x\<bar>"
    using assms(1) by (smt (verit) zero_less_power_int)
  have b: "(2::real) powr (real_of_int k + 1) = 2 powi (k + 1)"
    using two_powr_int [of "k + 1"] by simp
  show ?thesis
    using floor_log_eq_powr_iff [of "\<bar>x\<bar>" 2 k] pos assms
    by (simp only: two_powr_int b)
qed

lemma nearest_double_eval:
  assumes "2 powi k \<le> \<bar>x\<bar>" and "\<bar>x\<bar> < 2 powi (k + 1)" and "e = max (k - 52) (- 1074)"
  shows "nearest_double x = of_int (round_half_even (x / 2 powi e)) * 2 powi e"
proof -
  have "x \<noteq> 0" using assms(1) by (smt (verit) zero_less_power_int abs_zero)
  then show ?thesis
    by (simp add: nearest_double_def ulp_exponent_def floor_log2_eq [OF assms(1,2)] assms(3))
qed

lemma round_half_even_of_int: "round_half_even (of_int n) = n"
  by (simp add: round_half_even_def)

lemma round_half_even_mono:
  assumes "t \<le> u"
  shows "round_half_even t \<le> round_half_even u"
proof (cases "\<lfloor>t\<rfloor> = \<lfloor>u\<rfloor>")
  case True
  then show ?thesis
    using assms by (auto simp: round_half_even_def Let_def)
next
  case False
  with assms have "\<lfloor>t\<rfloor> + 1 \<le> \<lfloor>u\<rfloor>"
    using floor_mono [OF assms] by linarith
  moreover have "round_half_even t \<le> \<lfloor>t\<rfloor> + 1"
    by (auto simp: round_half_even_def Let_def)
  moreover have "\<lfloor>u\<rfloor> \<le> round_half_even u"
    by (auto simp: round_half_even_def Let_def)
  ultimately show ?thesis by linarith
qed

lemma round_half_even_minus: "round_half_even (- t) = - round_half_even t"
proof (cases "t = of_int \<lfloor>t\<rfloor>")
  case True
  then obtain n where "t = of_int n" by blast
  then have "- t = of_int (- n)" by simp
  then show ?thesis
    unfolding \<open>t = of_int n\<close> using round_half_even_of_int [of "- n"] round_half_even_of_int [of n]
    by simp
next
  case False
  then have fl: "\<lfloor>- t\<rfloor> = - \<lfloor>t\<rfloor> - 1"
    by (smt (verit) ceiling_def floor_eq_iff of_int_floor_cancel ceiling_altdef floor_minus)
  show ?thesis
    unfolding round_half_even_def Let_def fl
    by (auto simp: algebra_simps)
qed


lemma binade:
  assumes "x \<noteq> 0"
  shows "2 powi \<lfloor>log 2 \<bar>x\<bar>\<rfloor> \<le> \<bar>x\<bar> \<and> \<bar>x\<bar> < 2 powi (\<lfloor>log 2 \<bar>x\<bar>\<rfloor> + 1)"
proof -
  have pos: "0 < \<bar>x\<bar>" using assms by simp
  have b: "(2::real) powr (real_of_int \<lfloor>log 2 \<bar>x\<bar>\<rfloor> + 1) = 2 powi (\<lfloor>log 2 \<bar>x\<bar>\<rfloor> + 1)"
    using two_powr_int [of "\<lfloor>log 2 \<bar>x\<bar>\<rfloor> + 1"] by simp
  show ?thesis
    using floor_log_eq_powr_iff [of "\<bar>x\<bar>" 2 "\<lfloor>log 2 \<bar>x\<bar>\<rfloor>"] pos
    by (simp only: two_powr_int b) simp
qed

lemma nearest_double_minus: "nearest_double (- x) = - nearest_double x"
  by (simp add: nearest_double_def ulp_exponent_def round_half_even_minus)

lemma nearest_double_nonneg:
  assumes "0 \<le> x"
  shows "0 \<le> nearest_double x"
proof -
  have "0 \<le> x / 2 powi ulp_exponent x" using assms by simp
  from round_half_even_mono [OF this] have "0 \<le> round_half_even (x / 2 powi ulp_exponent x)"
    using round_half_even_of_int [of 0] by simp
  then show ?thesis by (simp add: nearest_double_def)
qed

lemma nearest_double_le_power:
  assumes "0 < x" and "x \<le> 2 powi m" and "ulp_exponent x \<le> m"
  shows "nearest_double x \<le> 2 powi m"
proof -
  define e where "e = ulp_exponent x"
  have n: "0 \<le> m - e" using assms(3) by (simp add: e_def)
  have split: "(2::real) powi m = 2 powi (m - e) * 2 powi e"
    by (simp add: power_int_add [symmetric])
  have "x / 2 powi e \<le> 2 powi (m - e)"
    using assms(2) unfolding split by (simp add: field_simps)
  also have "(2::real) powi (m - e) = of_int (2 ^ nat (m - e))"
    using n by (simp add: power_int_nonneg_exp)
  finally have "round_half_even (x / 2 powi e) \<le> 2 ^ nat (m - e)"
    using round_half_even_mono round_half_even_of_int by metis
  then have le: "real_of_int (round_half_even (x / 2 powi e)) \<le> real_of_int (2 ^ nat (m - e))"
    by (simp only: of_int_le_iff)
  have eq: "real_of_int (2 ^ nat (m - e)) = 2 powi (m - e)"
    using n by (simp add: power_int_nonneg_exp)
  have "real_of_int (round_half_even (x / 2 powi e)) \<le> 2 powi (m - e)"
    using le unfolding eq .
  then have "real_of_int (round_half_even (x / 2 powi e)) * 2 powi e \<le> 2 powi (m - e) * 2 powi e"
    by (intro mult_right_mono) simp_all
  then show ?thesis
    using assms(1) unfolding split [symmetric] by (simp add: nearest_double_def e_def)
qed

lemma nearest_double_ge_power:
  assumes "0 < x" and "2 powi m \<le> x" and "ulp_exponent x \<le> m"
  shows "2 powi m \<le> nearest_double x"
proof -
  define e where "e = ulp_exponent x"
  have n: "0 \<le> m - e" using assms(3) by (simp add: e_def)
  have split: "(2::real) powi m = 2 powi (m - e) * 2 powi e"
    by (simp add: power_int_add [symmetric])
  have "2 powi (m - e) \<le> x / 2 powi e"
    using assms(2) unfolding split by (simp add: field_simps)
  moreover have "(2::real) powi (m - e) = of_int (2 ^ nat (m - e))"
    using n by (simp add: power_int_nonneg_exp)
  ultimately have "real_of_int (2 ^ nat (m - e)) \<le> x / 2 powi e" by simp
  then have "2 ^ nat (m - e) \<le> round_half_even (x / 2 powi e)"
    using round_half_even_mono round_half_even_of_int by metis
  then have le: "real_of_int (2 ^ nat (m - e)) \<le> real_of_int (round_half_even (x / 2 powi e))"
    by (simp only: of_int_le_iff)
  have eq: "real_of_int (2 ^ nat (m - e)) = 2 powi (m - e)"
    using n by (simp add: power_int_nonneg_exp)
  have "2 powi (m - e) \<le> real_of_int (round_half_even (x / 2 powi e))"
    using le unfolding eq .
  then have "2 powi (m - e) * 2 powi e \<le> real_of_int (round_half_even (x / 2 powi e)) * 2 powi e"
    by (intro mult_right_mono) simp_all
  then show ?thesis
    using assms(1) unfolding split [symmetric] by (simp add: nearest_double_def e_def)
qed

lemma nearest_double_mono_pos:
  assumes "0 < x" and "x \<le> y"
  shows "nearest_double x \<le> nearest_double y"
proof -
  have y: "0 < y" using assms by simp
  define kx where "kx = \<lfloor>log 2 \<bar>x\<bar>\<rfloor>"
  define ky where "ky = \<lfloor>log 2 \<bar>y\<bar>\<rfloor>"
  have ex: "ulp_exponent x = max (kx - 52) (- 1074)" and ey: "ulp_exponent y = max (ky - 52) (- 1074)"
    by (simp_all add: ulp_exponent_def kx_def ky_def)
  have k: "kx \<le> ky"
    unfolding kx_def ky_def using assms by (intro floor_mono) simp
  show ?thesis
  proof (cases "ulp_exponent x = ulp_exponent y")
    case True
    have "x / 2 powi ulp_exponent y \<le> y / 2 powi ulp_exponent y"
      using assms by (simp add: divide_right_mono)
    from round_half_even_mono [OF this] show ?thesis
      using assms y by (simp add: nearest_double_def True mult_right_mono)
  next
    case False
    then have kk: "kx + 1 \<le> ky" and e1: "ulp_exponent x \<le> ky" and e2: "ulp_exponent y \<le> ky"
      using k unfolding ex ey by linarith+
    have "x < 2 powi (kx + 1)" using binade [of x] assms(1) by (simp add: kx_def)
    also have "(2::real) powi (kx + 1) \<le> 2 powi ky"
      using kk by (intro power_int_increasing) simp_all
    finally have "x \<le> 2 powi ky" by simp
    then have "nearest_double x \<le> 2 powi ky"
      using assms(1) e1 by (intro nearest_double_le_power)
    moreover have "2 powi ky \<le> y" using binade [of y] y by (simp add: ky_def)
    then have "2 powi ky \<le> nearest_double y"
      using y e2 by (intro nearest_double_ge_power)
    ultimately show ?thesis by linarith
  qed
qed

lemma nearest_double_mono:
  assumes "x \<le> y"
  shows "nearest_double x \<le> nearest_double y"
proof -
  consider "0 < x" | "x \<le> 0" "0 \<le> y" | "y < 0" by linarith
  then show ?thesis
  proof cases
    case 1
    then show ?thesis using assms by (rule nearest_double_mono_pos)
  next
    case 2
    have "nearest_double x = - nearest_double (- x)" by (simp add: nearest_double_minus)
    moreover have "0 \<le> nearest_double (- x)" using 2 by (intro nearest_double_nonneg) simp
    moreover have "0 \<le> nearest_double y" using 2 by (intro nearest_double_nonneg)
    ultimately show ?thesis by linarith
  next
    case 3
    then have "nearest_double (- y) \<le> nearest_double (- x)"
      using assms by (intro nearest_double_mono_pos) simp_all
    then show ?thesis by (simp add: nearest_double_minus)
  qed
qed

lemma nearest_double_abs_le_power:
  assumes "\<bar>x\<bar> \<le> 2 powi m" and "ulp_exponent x \<le> m"
  shows "\<bar>nearest_double x\<bar> \<le> 2 powi m"
proof -
  consider "0 < x" | "x = 0" | "x < 0" by linarith
  then show ?thesis
  proof cases
    case 1
    then have "nearest_double x \<le> 2 powi m"
      using assms by (intro nearest_double_le_power) simp_all
    moreover have "0 \<le> nearest_double x" using 1 by (intro nearest_double_nonneg) simp
    ultimately show ?thesis by simp
  next
    case 2
    then show ?thesis by (simp add: nearest_double_def)
  next
    case 3
    have e: "ulp_exponent (- x) = ulp_exponent x" by (simp add: ulp_exponent_def)
    have "nearest_double (- x) \<le> 2 powi m"
      using 3 assms by (intro nearest_double_le_power) (simp_all add: e)
    moreover have "0 \<le> nearest_double (- x)" using 3 by (intro nearest_double_nonneg) simp
    ultimately show ?thesis by (simp add: nearest_double_minus)
  qed
qed

lemma fl_round_zero: "fl_round 0 = Fin 0"
  by (simp add: fl_round_def nearest_double_def)

lemma fl_round_eval:
  assumes "2 powi k \<le> \<bar>x\<bar>" and "\<bar>x\<bar> < 2 powi (k + 1)" and "- 1074 \<le> k" and "k < 1023"
    and "e = max (k - 52) (- 1074)"
  shows "fl_round x = Fin (of_int (round_half_even (x / 2 powi e)) * 2 powi e)"
proof -
  have ue: "ulp_exponent x = e"
    by (simp add: ulp_exponent_def floor_log2_eq [OF assms(1,2)] assms(5))
  have "\<bar>nearest_double x\<bar> \<le> 2 powi (k + 1)"
    using assms(2,3,5) by (intro nearest_double_abs_le_power) (simp_all add: ue)
  also have "(2::real) powi (k + 1) \<le> 2 powi 1023"
    using assms(4) by (intro power_int_increasing) simp_all
  also have "(2::real) powi 1023 < 2 ^ 1024" by simp
  finally have "\<bar>nearest_double x\<bar> < 2 ^ 1024" .
  then have "\<not> 2 ^ 1024 \<le> nearest_double x" "\<not> nearest_double x \<le> - (2 ^ 1024)"
    by linarith+
  then show ?thesis
    by (simp add: fl_round_def Let_def nearest_double_eval [OF assms(1,2,5)])
qed


subsection \<open>The alert decision\<close>

text \<open>
  Claim C1, as stated, fails where the rounding of the mean decides. Three scores of
  0.7 (the double nearest to 7/10) against a threshold of 0.7, six seconds after the
  first detection with a minimum of five: the mean of the three scores is the
  threshold itself, and the answer is no, with the summation of either version of the
  interpreter: the sum rounds to 2.0999999999999996, its third to 0.6999999999999998.
\<close>

theorem should_trigger_alert_counterexample:
  "fl_round (7 / 10) = Fin (3152519739159347 / 4503599627370496)
   \<and> \<not> alert_triggered
        \<lparr>first_detected = 100, last_updated = 105, positions = [(1, 1), (1, 2), (1, 3)],
         detection_type = rf_only,
         confidence_scores = [3152519739159347 / 4503599627370496,
                              3152519739159347 / 4503599627370496,
                              3152519739159347 / 4503599627370496],
         alert_triggered = False\<rparr>
   \<and> \<not> (106 - 100 < (5::real))
   \<and> (3152519739159347 / 4503599627370496::real)
        \<le> (3152519739159347 / 4503599627370496 + 3152519739159347 / 4503599627370496
            + 3152519739159347 / 4503599627370496) / 3
   \<and> \<not> should_trigger_alert float_sum
        \<lparr>correlation_threshold = 50,
         confidence_threshold = 3152519739159347 / 4503599627370496,
         min_detection_time = 5, alert_duration = 10\<rparr> 106
        \<lparr>first_detected = 100, last_updated = 105, positions = [(1, 1), (1, 2), (1, 3)],
         detection_type = rf_only,
         confidence_scores = [3152519739159347 / 4503599627370496,
                              3152519739159347 / 4503599627370496,
                              3152519739159347 / 4503599627370496],
         alert_triggered = False\<rparr>
   \<and> \<not> should_trigger_alert compensated_sum
        \<lparr>correlation_threshold = 50,
         confidence_threshold = 3152519739159347 / 4503599627370496,
         min_detection_time = 5, alert_duration = 10\<rparr> 106
        \<lparr>first_detected = 100, last_updated = 105, positions = [(1, 1), (1, 2), (1, 3)],
         detection_type = rf_only,
         confidence_scores = [3152519739159347 / 4503599627370496,
                              3152519739159347 / 4503599627370496,
                              3152519739159347 / 4503599627370496],
         alert_triggered = False\<rparr>"
proof -
  have r1: "fl_round (7 / 10) = Fin (3152519739159347 / 4503599627370496)"
    by (subst fl_round_eval [where k = "- 1" and e = "- 53"])
       (simp_all add: round_half_even_def power_int_minus)
  have r2: "fl_round (6) = Fin (6)"
    by (subst fl_round_eval [where k = "2" and e = "- 50"])
       (simp_all add: round_half_even_def power_int_minus)
  have r3: "fl_round (3152519739159347 / 4503599627370496) = Fin (3152519739159347 / 4503599627370496)"
    by (subst fl_round_eval [where k = "- 1" and e = "- 53"])
       (simp_all add: round_half_even_def power_int_minus)
  have r4: "fl_round (3152519739159347 / 2251799813685248) = Fin (3152519739159347 / 2251799813685248)"
    by (subst fl_round_eval [where k = "0" and e = "- 52"])
       (simp_all add: round_half_even_def power_int_minus)
  have r5: "fl_round (9457559217478041 / 4503599627370496) = Fin (1182194902184755 / 562949953421312)"
    by (subst fl_round_eval [where k = "1" and e = "- 51"])
       (simp_all add: round_half_even_def power_int_minus)
  have r6: "fl_round (1182194902184755 / 1688849860263936) = Fin (6305039478318693 / 9007199254740992)"
    by (subst fl_round_eval [where k = "- 1" and e = "- 53"])
       (simp_all add: round_half_even_def power_int_minus)
  have r7: "fl_round (- (3152519739159347 / 4503599627370496)) = Fin (- (3152519739159347 / 4503599627370496))"
    by (subst fl_round_eval [where k = "- 1" and e = "- 53"])
       (simp_all add: round_half_even_def power_int_minus)
  have r8: "fl_round (- (1576259869579673 / 2251799813685248)) = Fin (- (1576259869579673 / 2251799813685248))"
    by (subst fl_round_eval [where k = "- 1" and e = "- 53"])
       (simp_all add: round_half_even_def power_int_minus)
  have r9: "fl_round (1 / 4503599627370496) = Fin (1 / 4503599627370496)"
    by (subst fl_round_eval [where k = "- 52" and e = "- 104"])
       (simp_all add: round_half_even_def power_int_minus)
  show ?thesis
    by (simp add: should_trigger_alert_def py_tail_slice_def float_sum_def compensated_sum_def
        compensated_step_def fl_sub_def fl_le_def Let_def fl_round_zero
        r1 r2 r3 r4 r5 r6 r7 r8 r9)
qed

text \<open>
  Claim C1, amended. \<open>should_trigger_alert\<close> answers no for a record whose alert has
  been triggered, no while the elapsed time, the double-precision difference of the
  clock and \<open>first_detected\<close>, is less than \<open>min_detection_time\<close>, no with fewer than
  three confidence samples, and otherwise yes exactly when the double-precision value
  of \<^verbatim>\<open>sum(scores[-3:]) / 3\<close>, as the interpreter computes it, reaches
  \<open>confidence_threshold\<close>.
\<close>

theorem should_trigger_alert_decision:
  "should_trigger_alert py_sum cfg now d =
     (\<not> alert_triggered d
      \<and> \<not> fl_less (fl_sub (Fin now) (Fin (first_detected d))) (Fin (min_detection_time cfg))
      \<and> \<not> length (confidence_scores d) < 3
      \<and> fl_le (Fin (confidence_threshold cfg))
           (fl_div (py_sum (map Fin (rev (take 3 (rev (confidence_scores d)))))) (Fin 3)))"
proof -
  have "py_tail_slice 3 (confidence_scores d) = rev (take 3 (rev (confidence_scores d)))"
    by (simp add: py_tail_slice_def take_rev)
  then show ?thesis
    by (simp add: should_trigger_alert_def Let_def)
qed

text \<open>Three samples 0.72, 0.74, 0.78 against a threshold of 0.7, six seconds after the
  first detection with a minimum of five: the alert fires.\<close>

theorem should_trigger_alert_decision_witness:
  "should_trigger_alert float_sum
     \<lparr>correlation_threshold = 50, confidence_threshold = 3152519739159347 / 4503599627370496,
      min_detection_time = 5, alert_duration = 10\<rparr> 106
     \<lparr>first_detected = 100, last_updated = 105, positions = [(1, 1), (1, 2), (1, 3)],
      detection_type = rf_only,
      confidence_scores = [3242591731706757 / 4503599627370496,
                           3332663724254167 / 4503599627370496,
                           3512807709348987 / 4503599627370496],
      alert_triggered = False\<rparr>"
proof -
  have r1: "fl_round (6) = Fin (6)"
    by (subst fl_round_eval [where k = "2" and e = "- 50"])
       (simp_all add: round_half_even_def power_int_minus)
  have r2: "fl_round (3242591731706757 / 4503599627370496) = Fin (3242591731706757 / 4503599627370496)"
    by (subst fl_round_eval [where k = "- 1" and e = "- 53"])
       (simp_all add: round_half_even_def power_int_minus)
  have r3: "fl_round (1643813863990231 / 1125899906842624) = Fin (1643813863990231 / 1125899906842624)"
    by (subst fl_round_eval [where k = "0" and e = "- 52"])
       (simp_all add: round_half_even_def power_int_minus)
  have r4: "fl_round (10088063165309911 / 4503599627370496) = Fin (1261007895663739 / 562949953421312)"
    by (subst fl_round_eval [where k = "1" and e = "- 51"])
       (simp_all add: round_half_even_def power_int_minus)
  have r5: "fl_round (1261007895663739 / 1688849860263936) = Fin (6725375443539941 / 9007199254740992)"
    by (subst fl_round_eval [where k = "- 1" and e = "- 53"])
       (simp_all add: round_half_even_def power_int_minus)
  show ?thesis
    using should_trigger_alert_decision
      [of float_sum
        "\<lparr>correlation_threshold = 50, confidence_threshold = 3152519739159347 / 4503599627370496,
      min_detection_time = 5, alert_duration = 10\<rparr>" 106
        "\<lparr>first_detected = 100, last_updated = 105, positions = [(1, 1), (1, 2), (1, 3)],
      detection_type = rf_only,
      confidence_scores = [3242591731706757 / 4503599627370496,
                           3332663724254167 / 4503599627370496,
                           3512807709348987 / 4503599627370496],
      alert_triggered = False\<rparr>"]
    by (simp add: float_sum_def fl_sub_def fl_le_def r1 r2 r3 r4 r5)
qed

subsection \<open>Signal strength to distance\<close>





subsection \<open>The periodic sweep\<close>

text \<open>
  Claim C7. For every record and every current time, \<open>cleanup_old_detections\<close> removes
  the record exactly when \<open>now - last_updated\<close> exceeds 30: a record of age 30 or less
  stays as it is, an older one goes, whatever its other fields (\<open>alert_triggered\<close>
  among them) hold; a key with no record gets none.
\<close>

theorem cleanup_removes_exactly_the_old:
  "(case dets device_id of
      None \<Rightarrow> cleanup_old_detections now dets device_id = None
    | Some d \<Rightarrow>
        cleanup_old_detections now dets device_id =
          (if 30 < now - last_updated d then None else Some d))"
  by (simp add: cleanup_old_detections_def expired_detections_def restrict_map_def
      split: option.splits)

text \<open>At time 130 an alerted record last updated at 100 (age 30) stays, an alerted
  record last updated at 99 (age 31) goes.\<close>

theorem cleanup_removes_exactly_the_old_witness:
  "cleanup_old_detections 130
     [''aa'' \<mapsto> \<lparr>first_detected = 90, last_updated = 100, positions = [], detection_type = rf_only,
                 confidence_scores = [], alert_triggered = True\<rparr>,
      ''bb'' \<mapsto> \<lparr>first_detected = 90, last_updated = 99, positions = [], detection_type = rf_only,
                 confidence_scores = [], alert_triggered = True\<rparr>] ''aa''
   = Some \<lparr>first_detected = 90, last_updated = 100, positions = [], detection_type = rf_only,
                 confidence_scores = [], alert_triggered = True\<rparr>
   \<and> cleanup_old_detections 130
     [''aa'' \<mapsto> \<lparr>first_detected = 90, last_updated = 100, positions = [], detection_type = rf_only,
                 confidence_scores = [], alert_triggered = True\<rparr>,
      ''bb'' \<mapsto> \<lparr>first_detected = 90, last_updated = 99, positions = [], detection_type = rf_only,
                 confidence_scores = [], alert_triggered = True\<rparr>] ''bb'' = None"
  using cleanup_removes_exactly_the_old
    [where now = 130 and device_id = "''aa''" and dets = "[''aa'' \<mapsto> \<lparr>first_detected = 90, last_updated = 100, positions = [], detection_type = rf_only,
                 confidence_scores = [], alert_triggered = True\<rparr>,
      ''bb'' \<mapsto> \<lparr>first_detected = 90, last_updated = 99, positions = [], detection_type = rf_only,
                 confidence_scores = [], alert_triggered = True\<rparr>]"]
    cleanup_removes_exactly_the_old
    [where now = 130 and device_id = "''bb''" and dets = "[''aa'' \<mapsto> \<lparr>first_detected = 90, last_updated = 100, positions = [], detection_type = rf_only,
                 confidence_scores = [], alert_triggered = True\<rparr>,
      ''bb'' \<mapsto> \<lparr>first_detected = 90, last_updated = 99, positions = [], detection_type = rf_only,
                 confidence_scores = [], alert_triggered = True\<rparr>]"]
  by simp

subsection \<open>Trilateration\<close>




subsection \<open>Hotspot confidence\<close>

lemma mean_le_one: "x \<le> 1 \<Longrightarrow> y \<le> 1 \<Longrightarrow> (x + y) / 2 \<le> (1::real)"
  by simp

lemma hotspot_confidence_bounds:
  "1 / 10 \<le> hotspot_confidence t a \<and> hotspot_confidence t a \<le> 1"
proof -
  have "min ((t - 25) / 15) 1 \<le> 1" by simp
  moreover have "1 - \<bar>a - 10\<bar> / 10 \<le> 1" by simp
  ultimately have "(min ((t - 25) / 15) 1 + (1 - \<bar>a - 10\<bar> / 10)) / 2 \<le> 1"
    by (rule mean_le_one)
  then show ?thesis
    by (simp add: hotspot_confidence_def Let_def)
qed

lemma hotspot_confidence_agrees:
  assumes "25 \<le> t" and "0 \<le> a" and "a \<le> 20"
  shows "hotspot_confidence t a = max (1 / 10) (spec_hotspot_confidence t a)"
proof -
  have "\<bar>a - 10\<bar> \<le> 10" using assms by (simp add: abs_le_iff)
  then have s: "clamp (1 - \<bar>a - 10\<bar> / 10) 0 1 = 1 - \<bar>a - 10\<bar> / 10"
    by (simp add: clamp_def)
  have t: "clamp ((t - 25) / 15) 0 1 = min ((t - 25) / 15) 1"
    using assms by (simp add: clamp_def min.commute)
  show ?thesis
    by (simp add: hotspot_confidence_def spec_hotspot_confidence_def Let_def s t)
qed

lemma in_set_map_filter:
  "y \<in> set (List.map_filter f xs) \<longleftrightarrow> (\<exists>x \<in> set xs. f x = Some y)"
  by (induction xs) (auto split: option.splits)

lemma detect_hotspots_member:
  "h \<in> set (detect_hotspots cfg (Some (fd, contours))) \<longleftrightarrow>
     (\<exists>c \<in> set contours. hotspot_of_contour cfg fd c = Some h)"
  by (simp add: detect_hotspots_def in_set_map_filter)

lemma hotspot_of_contour_Some:
  "hotspot_of_contour cfg fd c = Some h \<Longrightarrow>
     hotspot_min_size cfg \<le> ct_area c \<and> ct_area c \<le> hotspot_max_size cfg
     \<and> hs_confidence h = hotspot_confidence (ct_avg_temp c) (ct_area c)"
  by (auto simp: hotspot_of_contour_def Let_def split: if_splits)

text \<open>
  Claim C5, as stated, fails for a blob of area 10 and mean temperature 20 under the
  area filter from 3 to 20: the reported confidence is 1/3, where the mean of the two
  clamped components is 1/2 (the temperature component is not clamped below).
\<close>

theorem hotspot_confidence_counterexample:
  "map hs_confidence
     (detect_hotspots \<lparr>hotspot_min_size = 3, hotspot_max_size = 20\<rparr>
        (Some (\<lparr>frame_id = 7, frame_timestamp = 100\<rparr>,
               [\<lparr>ct_area = 10, ct_m00 = 10, ct_m10 = 50, ct_m01 = 60, ct_avg_temp = 20\<rparr>])))
     = [1 / 3]
   \<and> spec_hotspot_confidence 20 10 = 1 / 2"
  by (simp add: detect_hotspots_def List.map_filter_def hotspot_of_contour_def Let_def
      hotspot_confidence_def spec_hotspot_confidence_def clamp_def trunc_def)

lemma length_sort_key_map_filter:
  "length (List.map_filter f xs) = length (filter (\<lambda>x. f x \<noteq> None) xs)"
  by (induction xs) (auto split: option.splits)

lemma hotspot_of_contour_eq:
  "hotspot_of_contour cfg fd c =
     (if hotspot_min_size cfg \<le> ct_area c \<and> ct_area c \<le> hotspot_max_size cfg \<and> ct_m00 c \<noteq> 0
      then Some \<lparr>hs_position = (trunc (ct_m10 c / ct_m00 c), trunc (ct_m01 c / ct_m00 c)),
                 hs_area = ct_area c,
                 hs_avg_temp = ct_avg_temp c,
                 hs_confidence = hotspot_confidence (ct_avg_temp c) (ct_area c),
                 hs_frame_id = frame_id fd,
                 hs_timestamp = frame_timestamp fd\<rparr>
      else None)"
  by (simp add: hotspot_of_contour_def Let_def)

text \<open>
  Claim C5, amended. \<open>detect_hotspots\<close> reports one hotspot for every contour that
  passes the area filter (and has a moment \<open>m00\<close> other than 0), and no other: it has
  the contour's area and mean temperature. The confidence of every hotspot
  reported is the larger of 0.1 and the mean of \<open>min ((avg_temp - 25) / 15) 1\<close> and
  \<open>1 - |area - 10| / 10\<close>, taken at its own mean temperature and area; when the mean
  temperature is at least 25 and the area lies between 0 and 20, that is the larger of
  0.1 and the mean of the two clamped components.
\<close>

theorem hotspot_confidence_reported:
  "(\<forall>h \<in> set (detect_hotspots cfg (Some (fd, contours))).
       hotspot_min_size cfg \<le> hs_area h \<and> hs_area h \<le> hotspot_max_size cfg
       \<and> hs_confidence h =
           max (1 / 10) ((min ((hs_avg_temp h - 25) / 15) 1 + (1 - \<bar>hs_area h - 10\<bar> / 10)) / 2)
       \<and> (25 \<le> hs_avg_temp h \<and> 0 \<le> hs_area h \<and> hs_area h \<le> 20 \<longrightarrow>
            hs_confidence h = max (1 / 10) (spec_hotspot_confidence (hs_avg_temp h) (hs_area h))))
   \<and> (\<forall>c \<in> set contours.
         hotspot_min_size cfg \<le> ct_area c \<and> ct_area c \<le> hotspot_max_size cfg \<and> ct_m00 c \<noteq> 0 \<longrightarrow>
           \<lparr>hs_position = (trunc (ct_m10 c / ct_m00 c), trunc (ct_m01 c / ct_m00 c)),
            hs_area = ct_area c,
            hs_avg_temp = ct_avg_temp c,
            hs_confidence =
              max (1 / 10)
                ((min ((ct_avg_temp c - 25) / 15) 1 + (1 - \<bar>ct_area c - 10\<bar> / 10)) / 2),
            hs_frame_id = frame_id fd,
            hs_timestamp = frame_timestamp fd\<rparr>
           \<in> set (detect_hotspots cfg (Some (fd, contours))))
   \<and> length (detect_hotspots cfg (Some (fd, contours))) =
       length (filter (\<lambda>c. hotspot_min_size cfg \<le> ct_area c \<and> ct_area c \<le> hotspot_max_size cfg
                            \<and> ct_m00 c \<noteq> 0) contours)"
proof (intro conjI ballI impI)
  fix h assume "h \<in> set (detect_hotspots cfg (Some (fd, contours)))"
  then obtain c where c: "hotspot_of_contour cfg fd c = Some h"
    by (auto simp: detect_hotspots_member)
  then have h: "hotspot_min_size cfg \<le> ct_area c" "ct_area c \<le> hotspot_max_size cfg"
    "hs_area h = ct_area c" "hs_avg_temp h = ct_avg_temp c"
    "hs_confidence h = hotspot_confidence (ct_avg_temp c) (ct_area c)"
    by (auto simp: hotspot_of_contour_eq split: if_splits)
  show "hotspot_min_size cfg \<le> hs_area h" "hs_area h \<le> hotspot_max_size cfg"
    using h by simp_all
  show "hs_confidence h =
           max (1 / 10) ((min ((hs_avg_temp h - 25) / 15) 1 + (1 - \<bar>hs_area h - 10\<bar> / 10)) / 2)"
    using h by (simp add: hotspot_confidence_def Let_def)
  assume "25 \<le> hs_avg_temp h \<and> 0 \<le> hs_area h \<and> hs_area h \<le> 20"
  then show "hs_confidence h = max (1 / 10) (spec_hotspot_confidence (hs_avg_temp h) (hs_area h))"
    using h by (simp add: hotspot_confidence_agrees)
next
  fix c assume "c \<in> set contours"
    and "hotspot_min_size cfg \<le> ct_area c \<and> ct_area c \<le> hotspot_max_size cfg \<and> ct_m00 c \<noteq> 0"
  then show "\<lparr>hs_position = (trunc (ct_m10 c / ct_m00 c), trunc (ct_m01 c / ct_m00 c)),
            hs_area = ct_area c,
            hs_avg_temp = ct_avg_temp c,
            hs_confidence =
              max (1 / 10)
                ((min ((ct_avg_temp c - 25) / 15) 1 + (1 - \<bar>ct_area c - 10\<bar> / 10)) / 2),
            hs_frame_id = frame_id fd,
            hs_timestamp = frame_timestamp fd\<rparr>
           \<in> set (detect_hotspots cfg (Some (fd, contours)))"
    unfolding detect_hotspots_member
    by (intro bexI [of _ c]) (simp_all add: hotspot_of_contour_eq hotspot_confidence_def Let_def)
next
  show "length (detect_hotspots cfg (Some (fd, contours))) =
       length (filter (\<lambda>c. hotspot_min_size cfg \<le> ct_area c \<and> ct_area c \<le> hotspot_max_size cfg
                            \<and> ct_m00 c \<noteq> 0) contours)"
    by (simp add: detect_hotspots_def length_sort_key_map_filter hotspot_of_contour_eq conj_ac)
qed

text \<open>Two blobs: the one of area 2 fails the filter from 3 to 20, the one of area 10 and
  mean temperature 35 is reported with confidence 5/6, which is what both formulas
  give.\<close>

theorem hotspot_confidence_reported_witness:
  "detect_hotspots \<lparr>hotspot_min_size = 3, hotspot_max_size = 20\<rparr>
     (Some (\<lparr>frame_id = 7, frame_timestamp = 100\<rparr>,
            [\<lparr>ct_area = 2, ct_m00 = 2, ct_m10 = 4, ct_m01 = 4, ct_avg_temp = 40\<rparr>,
             \<lparr>ct_area = 10, ct_m00 = 10, ct_m10 = 50, ct_m01 = 60, ct_avg_temp = 35\<rparr>]))
   = [\<lparr>hs_position = (5, 6), hs_area = 10, hs_avg_temp = 35, hs_confidence = 5 / 6,
       hs_frame_id = 7, hs_timestamp = 100\<rparr>]
   \<and> max (1 / 10) (spec_hotspot_confidence 35 10) = 5 / 6"
proof -
  have run: "detect_hotspots \<lparr>hotspot_min_size = 3, hotspot_max_size = 20\<rparr>
     (Some (\<lparr>frame_id = 7, frame_timestamp = 100\<rparr>,
            [\<lparr>ct_area = 2, ct_m00 = 2, ct_m10 = 4, ct_m01 = 4, ct_avg_temp = 40\<rparr>,
             \<lparr>ct_area = 10, ct_m00 = 10, ct_m10 = 50, ct_m01 = 60, ct_avg_temp = 35\<rparr>]))
   = [\<lparr>hs_position = (5, 6), hs_area = 10, hs_avg_temp = 35, hs_confidence = 5 / 6,
       hs_frame_id = 7, hs_timestamp = 100\<rparr>]"
    by (simp add: detect_hotspots_def hotspot_of_contour_def Let_def hotspot_confidence_def
        trunc_def)
  from hotspot_confidence_reported
    [of "\<lparr>hotspot_min_size = 3, hotspot_max_size = 20\<rparr>" "\<lparr>frame_id = 7, frame_timestamp = 100\<rparr>"
        "[\<lparr>ct_area = 2, ct_m00 = 2, ct_m10 = 4, ct_m01 = 4, ct_avg_temp = 40\<rparr>,
          \<lparr>ct_area = 10, ct_m00 = 10, ct_m10 = 50, ct_m01 = 60, ct_avg_temp = 35\<rparr>]"]
  show ?thesis
    using run by simp
qed

subsection \<open>Confidence values\<close>

lemma calculate_position_confidence_bounds:
  "0 \<le> calculate_position_confidence device \<and> calculate_position_confidence device \<le> 1"
proof (cases "detections device = []")
  case True
  then show ?thesis by (simp add: calculate_position_confidence_def)
next
  case False
  define b where "b = min (real (length (remdups (map esp32_id (detections device)))) / 4) 1"
  define f where "f = max (1 / 10)
     (min 1 ((real_of_int (sum_list (map rssi (detections device)))
                / real (length (detections device)) + 100) / 50))"
  have b: "0 \<le> b" "b \<le> 1" by (simp_all add: b_def)
  have f: "0 \<le> f" "f \<le> 1" by (simp_all add: f_def)
  have eq: "calculate_position_confidence device = b * f"
    using False by (simp add: calculate_position_confidence_def Let_def b_def f_def)
  show ?thesis
    unfolding eq using b f by (simp add: mult_le_one)
qed

lemma get_estimated_positions_member:
  "p \<in> set (get_estimated_positions now devs) \<Longrightarrow>
     \<exists>device. (mac_address p, device) \<in> set devs \<and> now - last_seen device \<le> 10
       \<and> estimated_position device = Some (est_position p)
       \<and> est_confidence p = calculate_position_confidence device"
  by (fastforce simp: get_estimated_positions_def get_detected_devices_def in_set_map_filter
      split: option.splits)

lemma correlate_one_confidence:
  "correlate_one rf_pos hs threshold = Inr cs \<Longrightarrow>
     \<forall>c \<in> set cs. 0 \<le> corr_confidence c \<and> corr_confidence c \<le> 1"
proof (induction hs arbitrary: cs)
  case Nil
  then show ?case by simp
next
  case (Cons h hs)
  define d where "d = sqrt ((fst rf_pos - real_of_int (fst (hs_position h)))\<^sup>2
                         + (snd rf_pos - real_of_int (snd (hs_position h)))\<^sup>2)"
  have d0: "0 \<le> d" by (simp add: d_def)
  show ?case
  proof (cases "d \<le> threshold")
    case False
    with Cons show ?thesis by (simp add: Let_def d_def)
  next
    case True
    with Cons.prems have nz: "threshold \<noteq> 0"
      by (auto simp: Let_def d_def split: if_splits)
    with True d0 have pos: "0 < threshold" by simp
    from Cons.prems True nz obtain cs' where
      rest: "correlate_one rf_pos hs threshold = Inr cs'"
      and cs: "cs = \<lparr>rf_position = rf_pos, thermal_position = hs_position h,
                     correlation_distance = d, hotspot_area = hs_area h,
                     corr_confidence = 1 - d / threshold\<rparr> # cs'"
      by (auto simp: Let_def d_def split: sum.splits)
    have "0 \<le> d / threshold" "d / threshold \<le> 1"
      using d0 pos True by simp_all
    then show ?thesis
      using Cons.IH [OF rest] by (simp add: cs)
  qed
qed

lemma correlate_rf_thermal_confidence:
  "correlate_rf_thermal rf hs threshold = Inr cs \<Longrightarrow>
     \<forall>c \<in> set cs. 0 \<le> corr_confidence c \<and> corr_confidence c \<le> 1"
proof (induction rf hs threshold arbitrary: cs rule: correlate_rf_thermal.induct)
  case (1 thermal_hotspots threshold)
  then show ?case by simp
next
  case (2 rest thermal_hotspots threshold)
  then show ?case by simp
next
  case (3 rf_pos rest thermal_hotspots threshold)
  from "3.prems" obtain xs ys where
    xs: "correlate_one rf_pos thermal_hotspots threshold = Inr xs"
    and ys: "correlate_rf_thermal rest thermal_hotspots threshold = Inr ys"
    and cs: "cs = xs @ ys"
    by (auto split: sum.splits)
  from correlate_one_confidence [OF xs] "3.IH" [OF xs ys] show ?case
    by (auto simp: cs)
qed

text \<open>
  Claim C6. Every confidence a component produces lies between 0 and 1: the confidence
  of every hotspot \<open>detect_hotspots\<close> reports, and that value times 0.6 (thermal-only
  evidence); the position confidence of every device, as \<open>calculate_position_confidence\<close>
  computes it and as \<open>get_estimated_positions\<close> reports it, and that value times 0.7
  (RF-only evidence); the confidence of every correlation \<open>correlate_rf_thermal\<close>
  returns.
\<close>

theorem confidences_in_unit_interval:
  "(\<forall>h \<in> set (detect_hotspots cfg frame).
       0 \<le> hs_confidence h \<and> hs_confidence h \<le> 1
       \<and> 0 \<le> hs_confidence h * (6 / 10) \<and> hs_confidence h * (6 / 10) \<le> 1)
   \<and> (0 \<le> calculate_position_confidence device \<and> calculate_position_confidence device \<le> 1)
   \<and> (\<forall>p \<in> set (get_estimated_positions now devs).
         0 \<le> est_confidence p \<and> est_confidence p \<le> 1
         \<and> 0 \<le> est_confidence p * (7 / 10) \<and> est_confidence p * (7 / 10) \<le> 1)
   \<and> (\<forall>cs. correlate_rf_thermal rf hs threshold = Inr cs \<longrightarrow>
         (\<forall>c \<in> set cs. 0 \<le> corr_confidence c \<and> corr_confidence c \<le> 1))"
proof (intro conjI ballI allI impI)
  fix h assume "h \<in> set (detect_hotspots cfg frame)"
  then obtain fd contours c where "hotspot_of_contour cfg fd c = Some h"
    by (cases frame) (auto simp: detect_hotspots_def in_set_map_filter)
  then have "hs_confidence h = hotspot_confidence (ct_avg_temp c) (ct_area c)"
    by (simp add: hotspot_of_contour_Some)
  with hotspot_confidence_bounds [of "ct_avg_temp c" "ct_area c"]
  have b: "1 / 10 \<le> hs_confidence h" "hs_confidence h \<le> 1" by simp_all
  from b show "0 \<le> hs_confidence h" by simp
  from b show "hs_confidence h \<le> 1" by simp
  from b show "0 \<le> hs_confidence h * (6 / 10)" by simp
  from b show "hs_confidence h * (6 / 10) \<le> 1" by simp
next
  show "0 \<le> calculate_position_confidence device"
    by (simp add: calculate_position_confidence_bounds)
  show "calculate_position_confidence device \<le> 1"
    by (simp add: calculate_position_confidence_bounds)
next
  fix p assume "p \<in> set (get_estimated_positions now devs)"
  from get_estimated_positions_member [OF this] obtain dev where
    "est_confidence p = calculate_position_confidence dev" by blast
  with calculate_position_confidence_bounds [of dev]
  have b: "0 \<le> est_confidence p" "est_confidence p \<le> 1" by simp_all
  from b show "0 \<le> est_confidence p" by simp
  from b show "est_confidence p \<le> 1" by simp
  from b show "0 \<le> est_confidence p * (7 / 10)" by simp
  from b show "est_confidence p * (7 / 10) \<le> 1" by simp
next
  fix cs c assume "correlate_rf_thermal rf hs threshold = Inr cs" "c \<in> set cs"
  with correlate_rf_thermal_confidence
  have "0 \<le> corr_confidence c \<and> corr_confidence c \<le> 1" by blast
  then show "0 \<le> corr_confidence c" "corr_confidence c \<le> 1" by simp_all
qed

text \<open>One hotspot of confidence 5/6, one device seen by one scanner at -60 dBm
  (confidence 1/5), and the correlation of an RF position (50,50) with a hotspot at
  (55,50) under a threshold of 50 (confidence 0.9).\<close>

theorem confidences_in_unit_interval_witness:
  "\<lparr>hs_position = (5, 6), hs_area = 10, hs_avg_temp = 35, hs_confidence = 5 / 6,
     hs_frame_id = 7, hs_timestamp = 100\<rparr>
     \<in> set (detect_hotspots \<lparr>hotspot_min_size = 3, hotspot_max_size = 20\<rparr>
              (Some (\<lparr>frame_id = 7, frame_timestamp = 100\<rparr>,
                     [\<lparr>ct_area = 10, ct_m00 = 10, ct_m10 = 50, ct_m01 = 60, ct_avg_temp = 35\<rparr>])))
   \<and> get_estimated_positions 105
        [(''AA'', \<lparr>first_seen = 90, last_seen = 100,
                  detections = [\<lparr>esp32_id = 0, obs_mac_address = ''AA'', rssi = - 60,
                                  device_type = ''WiFi'', obs_timestamp = 100,
                                  scanner_position = (0, 0)\<rparr>],
                  estimated_position = Some (50, 50)\<rparr>)]
      = [\<lparr>mac_address = ''AA'', est_position = (50, 50), est_confidence = 1 / 5\<rparr>]
   \<and> correlate_rf_thermal [Some (50, 50)]
        [\<lparr>hs_position = (55, 50), hs_area = 10, hs_avg_temp = 35, hs_confidence = 5 / 6,
          hs_frame_id = 7, hs_timestamp = 100\<rparr>] 50
      = Inr [\<lparr>rf_position = (50, 50), thermal_position = (55, 50), correlation_distance = 5,
               hotspot_area = 10, corr_confidence = 9 / 10\<rparr>]
   \<and> (0::real) \<le> 5 / 6 \<and> (5 / 6::real) * (6 / 10) \<le> 1
   \<and> (0::real) \<le> 1 / 5 \<and> (1 / 5::real) * (7 / 10) \<le> 1
   \<and> (0::real) \<le> 9 / 10 \<and> (9 / 10::real) \<le> 1"
proof -
  have h: "\<lparr>hs_position = (5, 6), hs_area = 10, hs_avg_temp = 35, hs_confidence = 5 / 6,
     hs_frame_id = 7, hs_timestamp = 100\<rparr>
     \<in> set (detect_hotspots \<lparr>hotspot_min_size = 3, hotspot_max_size = 20\<rparr>
              (Some (\<lparr>frame_id = 7, frame_timestamp = 100\<rparr>,
                     [\<lparr>ct_area = 10, ct_m00 = 10, ct_m10 = 50, ct_m01 = 60, ct_avg_temp = 35\<rparr>])))"
    by (simp add: detect_hotspots_def hotspot_of_contour_def Let_def hotspot_confidence_def
        trunc_def)
  have p: "get_estimated_positions 105
        [(''AA'', \<lparr>first_seen = 90, last_seen = 100,
                  detections = [\<lparr>esp32_id = 0, obs_mac_address = ''AA'', rssi = - 60,
                                  device_type = ''WiFi'', obs_timestamp = 100,
                                  scanner_position = (0, 0)\<rparr>],
                  estimated_position = Some (50, 50)\<rparr>)]
      = [\<lparr>mac_address = ''AA'', est_position = (50, 50), est_confidence = 1 / 5\<rparr>]"
    by (simp add: get_estimated_positions_def get_detected_devices_def
        calculate_position_confidence_def Let_def)
  have c: "correlate_rf_thermal [Some (50, 50)]
        [\<lparr>hs_position = (55, 50), hs_area = 10, hs_avg_temp = 35, hs_confidence = 5 / 6,
          hs_frame_id = 7, hs_timestamp = 100\<rparr>] 50
      = Inr [\<lparr>rf_position = (50, 50), thermal_position = (55, 50), correlation_distance = 5,
               hotspot_area = 10, corr_confidence = 9 / 10\<rparr>]"
    by (simp add: Let_def)
  have inst: "\<forall>cs. correlate_rf_thermal [Some (50, 50)]
        [\<lparr>hs_position = (55, 50), hs_area = 10, hs_avg_temp = 35, hs_confidence = 5 / 6,
          hs_frame_id = 7, hs_timestamp = 100\<rparr>] 50 = Inr cs \<longrightarrow>
         (\<forall>c \<in> set cs. 0 \<le> corr_confidence c \<and> corr_confidence c \<le> 1)"
    using confidences_in_unit_interval by blast
  from inst c h p show ?thesis by simp
qed

subsection \<open>The emergency stop\<close>





text \<open>When the first write raises, the \<^verbatim>\<open>except\<close> clause ends the method: nothing
  changes.\<close>

lemma emergency_stop_write_raises:
  "gpio_output (laser_pin s) LOW (board s) = None \<Longrightarrow> emergency_stop gpio_output s = s"
  by (simp add: emergency_stop_def)

subsection \<open>Scanner lines\<close>

lemma length_esp32_positions: "length esp32_positions = 4"
  by (simp add: esp32_positions_def)

text \<open>
  Claim C8, as stated, fails for the line \<^verbatim>\<open>DEVICE:AA:BB:CC\<close>: it begins with
  \<^verbatim>\<open>DEVICE:\<close> and splits into four fields, and it is dropped (reading field 7
  raises, the \<^verbatim>\<open>except\<close> clause logs).
\<close>

theorem parse_esp32_data_counterexample:
  "startswith ''DEVICE:AA:BB:CC'' ''DEVICE:''
   \<and> length (split_on CHR '':'' ''DEVICE:AA:BB:CC'') = 4
   \<and> parse_esp32_data py_int 0 100 ''DEVICE:AA:BB:CC'' [] = []"
  by (simp add: startswith_def parse_esp32_data_def parse_line_def py_index_def Let_def)

text \<open>
  Claim C8, amended. Whatever the built-in \<^verbatim>\<open>int\<close> accepts, the parser enqueues an
  observation exactly when the line begins with \<^verbatim>\<open>DEVICE:\<close>, splits into at least
  eight fields, \<^verbatim>\<open>int\<close> accepts field 7, and the scanner has a position (its index is
  below 4); the observation carries fields 1 to 6 joined by colons as the address, the
  integer as the signal strength, field 8 (or \<^verbatim>\<open>Unknown\<close>) as the kind, the time of
  the call and the scanner's position. Every other line leaves the queue as it was.
\<close>

theorem parse_esp32_data_accepts:
  "parse_esp32_data int_of scanner now data_line data_queue =
     (let parts = split_on CHR '':'' data_line
      in if startswith data_line ''DEVICE:'' \<and> 8 \<le> length parts
            \<and> (\<exists>v. int_of (parts ! 7) = Inr v) \<and> scanner < 4
         then data_queue @
                [\<lparr>esp32_id = scanner,
                  obs_mac_address = join_with '':'' (py_slice 1 7 parts),
                  rssi = projr (int_of (parts ! 7)),
                  device_type = (if 8 < length parts then parts ! 8 else ''Unknown''),
                  obs_timestamp = now,
                  scanner_position = esp32_positions ! scanner\<rparr>]
         else data_queue)"
  by (auto simp: parse_esp32_data_def parse_line_def py_index_def Let_def
      length_esp32_positions split: sum.splits)

text \<open>The example line of the source, read by scanner 1; the same line with the
  separator 0x1F before the number is dropped, with the no-break space 0xA0 before
  the number it is read.\<close>

theorem parse_esp32_data_accepts_witness:
  "parse_esp32_data py_int 1 100 ''DEVICE:AA:BB:CC:DD:EE:FF:-45:WiFi'' [] =
     [\<lparr>esp32_id = 1, obs_mac_address = ''AA:BB:CC:DD:EE:FF'', rssi = - 45,
       device_type = ''WiFi'', obs_timestamp = 100, scanner_position = (100, 0)\<rparr>]
   \<and> parse_esp32_data py_int 1 100
        (''DEVICE:AA:BB:CC:DD:EE:FF:'' @ [CHR 0x1F] @ ''-45:WiFi'') [] = []
   \<and> parse_esp32_data py_int 1 100
        (''DEVICE:AA:BB:CC:DD:EE:FF:'' @ [CHR 0xA0] @ ''-45:WiFi'') [] =
     [\<lparr>esp32_id = 1, obs_mac_address = ''AA:BB:CC:DD:EE:FF'', rssi = - 45,
       device_type = ''WiFi'', obs_timestamp = 100, scanner_position = (100, 0)\<rparr>]"
proof -
  have num: "py_int ''-45'' = Inr (- 45)"
    by (simp add: py_int_def strip_def is_space_def blank_latin1_space_def
        parse_unsigned_def digit_val_def)
  have sep: "py_int (CHR 0x1F # ''-45'') = Inl ValueError"
    by (simp add: py_int_def strip_def is_space_def blank_latin1_space_def
        parse_unsigned_def digit_val_def)
  have nbsp: "py_int (CHR 0xA0 # ''-45'') = Inr (- 45)"
    by (simp add: py_int_def strip_def is_space_def blank_latin1_space_def
        parse_unsigned_def digit_val_def)
  show ?thesis
    using parse_esp32_data_accepts [of py_int 1 100 "''DEVICE:AA:BB:CC:DD:EE:FF:-45:WiFi''" "[]"]
      parse_esp32_data_accepts
        [of py_int 1 100 "''DEVICE:AA:BB:CC:DD:EE:FF:'' @ [CHR 0x1F] @ ''-45:WiFi''" "[]"]
      parse_esp32_data_accepts
        [of py_int 1 100 "''DEVICE:AA:BB:CC:DD:EE:FF:'' @ [CHR 0xA0] @ ''-45:WiFi''" "[]"]
    by (simp add: num sep nbsp startswith_def py_slice_def esp32_positions_def)
qed

subsection \<open>Devices and positions reported\<close>

lemma estimate_device_position_keeps:
  "detections (estimate_device_position d) = detections d
   \<and> last_seen (estimate_device_position d) = last_seen d"
  by (simp add: estimate_device_position_def Let_def split: option.splits)

lemma update_device_tracking_window:
  "\<exists>device'. map_of (update_device_tracking obs devs) (obs_mac_address obs) = Some device'
      \<and> last_seen device' = obs_timestamp obs
      \<and> detections device' =
          filter (\<lambda>d. obs_timestamp obs - 30 < obs_timestamp d)
            ((case map_of devs (obs_mac_address obs) of
                None \<Rightarrow> []
              | Some dev \<Rightarrow> detections dev) @ [obs])"
  by (simp add: update_device_tracking_def Let_def update_conv' estimate_device_position_keeps
      split: option.splits)

lemma get_estimated_positions_iff:
  "p \<in> set (get_estimated_positions now devs) \<longleftrightarrow>
     (\<exists>device. (mac_address p, device) \<in> set devs \<and> now - last_seen device \<le> 10
        \<and> estimated_position device = Some (est_position p)
        \<and> est_confidence p = calculate_position_confidence device)"
proof
  assume "p \<in> set (get_estimated_positions now devs)"
  then show "\<exists>device. (mac_address p, device) \<in> set devs \<and> now - last_seen device \<le> 10
        \<and> estimated_position device = Some (est_position p)
        \<and> est_confidence p = calculate_position_confidence device"
    by (rule get_estimated_positions_member)
next
  assume "\<exists>device. (mac_address p, device) \<in> set devs \<and> now - last_seen device \<le> 10
        \<and> estimated_position device = Some (est_position p)
        \<and> est_confidence p = calculate_position_confidence device"
  then obtain device where d: "(mac_address p, device) \<in> set devs"
    "now - last_seen device \<le> 10" "estimated_position device = Some (est_position p)"
    "est_confidence p = calculate_position_confidence device" by blast
  then have "(mac_address p, device) \<in> set (get_detected_devices now devs)"
    by (simp add: get_detected_devices_def)
  moreover have "(case (mac_address p, device) of (mac, device) \<Rightarrow>
          case estimated_position device of
            None \<Rightarrow> None
          | Some pos \<Rightarrow> Some \<lparr>mac_address = mac, est_position = pos,
                             est_confidence = calculate_position_confidence device\<rparr>) = Some p"
    using d by simp
  ultimately show "p \<in> set (get_estimated_positions now devs)"
    unfolding get_estimated_positions_def in_set_map_filter by blast
qed

text \<open>
  Claim C10. \<open>get_detected_devices\<close> returns exactly the entries whose \<open>last_seen\<close>
  is at most 10 seconds old; \<open>get_estimated_positions\<close> reports exactly the positions
  of such entries that have an estimate; and the window of observations a device
  keeps reaches back 30 seconds from its latest observation.
\<close>

theorem positions_only_for_recent_devices:
  "((mac, device) \<in> set (get_detected_devices now devs)
      \<longleftrightarrow> (mac, device) \<in> set devs \<and> now - last_seen device \<le> 10)
   \<and> (p \<in> set (get_estimated_positions now devs)
      \<longleftrightarrow> (\<exists>dev. (mac_address p, dev) \<in> set devs \<and> now - last_seen dev \<le> 10
              \<and> estimated_position dev = Some (est_position p)
              \<and> est_confidence p = calculate_position_confidence dev))
   \<and> (\<exists>tracked. map_of (update_device_tracking obs devs) (obs_mac_address obs) = Some tracked
         \<and> last_seen tracked = obs_timestamp obs
         \<and> detections tracked =
             filter (\<lambda>d. obs_timestamp obs - 30 < obs_timestamp d)
               ((case map_of devs (obs_mac_address obs) of
                   None \<Rightarrow> []
                 | Some dev \<Rightarrow> detections dev) @ [obs]))"
  using get_estimated_positions_iff [of p now devs] update_device_tracking_window [of obs devs]
  by (simp add: get_detected_devices_def)

text \<open>A device seen at 60 and at 85 keeps both observations; asked at 90 its position
  is reported, asked at 105 it is not.\<close>

theorem positions_only_for_recent_devices_witness:
  "update_device_tracking
     \<lparr>esp32_id = 1, obs_mac_address = ''BB'', rssi = - 55, device_type = ''BLE'',
      obs_timestamp = 85, scanner_position = (100, 0)\<rparr>
     [(''BB'', \<lparr>first_seen = 60, last_seen = 60,
               detections = [\<lparr>esp32_id = 0, obs_mac_address = ''BB'', rssi = - 50,
                               device_type = ''BLE'', obs_timestamp = 60,
                               scanner_position = (0, 0)\<rparr>],
               estimated_position = Some (20, 30)\<rparr>)]
   = [(''BB'', \<lparr>first_seen = 60, last_seen = 85,
               detections = [\<lparr>esp32_id = 0, obs_mac_address = ''BB'', rssi = - 50,
                               device_type = ''BLE'', obs_timestamp = 60,
                               scanner_position = (0, 0)\<rparr>,
                             \<lparr>esp32_id = 1, obs_mac_address = ''BB'', rssi = - 55,
                               device_type = ''BLE'', obs_timestamp = 85,
                               scanner_position = (100, 0)\<rparr>],
               estimated_position = Some (20, 30)\<rparr>)]
   \<and> get_estimated_positions 90
       [(''BB'', \<lparr>first_seen = 60, last_seen = 85,
               detections = [\<lparr>esp32_id = 0, obs_mac_address = ''BB'', rssi = - 50,
                               device_type = ''BLE'', obs_timestamp = 60,
                               scanner_position = (0, 0)\<rparr>,
                             \<lparr>esp32_id = 1, obs_mac_address = ''BB'', rssi = - 55,
                               device_type = ''BLE'', obs_timestamp = 85,
                               scanner_position = (100, 0)\<rparr>],
               estimated_position = Some (20, 30)\<rparr>)]
     = [\<lparr>mac_address = ''BB'', est_position = (20, 30), est_confidence = 19 / 40\<rparr>]
   \<and> get_estimated_positions 105
       [(''BB'', \<lparr>first_seen = 60, last_seen = 85,
               detections = [\<lparr>esp32_id = 0, obs_mac_address = ''BB'', rssi = - 50,
                               device_type = ''BLE'', obs_timestamp = 60,
                               scanner_position = (0, 0)\<rparr>,
                             \<lparr>esp32_id = 1, obs_mac_address = ''BB'', rssi = - 55,
                               device_type = ''BLE'', obs_timestamp = 85,
                               scanner_position = (100, 0)\<rparr>],
               estimated_position = Some (20, 30)\<rparr>)]
     = []"
proof -
  have upd: "update_device_tracking
     \<lparr>esp32_id = 1, obs_mac_address = ''BB'', rssi = - 55, device_type = ''BLE'',
      obs_timestamp = 85, scanner_position = (100, 0)\<rparr>
     [(''BB'', \<lparr>first_seen = 60, last_seen = 60,
               detections = [\<lparr>esp32_id = 0, obs_mac_address = ''BB'', rssi = - 50,
                               device_type = ''BLE'', obs_timestamp = 60,
                               scanner_position = (0, 0)\<rparr>],
               estimated_position = Some (20, 30)\<rparr>)]
   = [(''BB'', \<lparr>first_seen = 60, last_seen = 85,
               detections = [\<lparr>esp32_id = 0, obs_mac_address = ''BB'', rssi = - 50,
                               device_type = ''BLE'', obs_timestamp = 60,
                               scanner_position = (0, 0)\<rparr>,
                             \<lparr>esp32_id = 1, obs_mac_address = ''BB'', rssi = - 55,
                               device_type = ''BLE'', obs_timestamp = 85,
                               scanner_position = (100, 0)\<rparr>],
               estimated_position = Some (20, 30)\<rparr>)]"
    by (simp add: update_device_tracking_def estimate_device_position_def Let_def)
  have conf: "calculate_position_confidence
      \<lparr>first_seen = 60, last_seen = 85,
               detections = [\<lparr>esp32_id = 0, obs_mac_address = ''BB'', rssi = - 50,
                               device_type = ''BLE'', obs_timestamp = 60,
                               scanner_position = (0, 0)\<rparr>,
                             \<lparr>esp32_id = 1, obs_mac_address = ''BB'', rssi = - 55,
                               device_type = ''BLE'', obs_timestamp = 85,
                               scanner_position = (100, 0)\<rparr>],
               estimated_position = Some (20, 30)\<rparr> = 19 / 40"
    by (simp add: calculate_position_confidence_def Let_def)
  show ?thesis
    using upd conf positions_only_for_recent_devices
      [where now = 105 and mac = "''BB''"
         and devs = "[(''BB'', \<lparr>first_seen = 60, last_seen = 85,
               detections = [\<lparr>esp32_id = 0, obs_mac_address = ''BB'', rssi = - 50,
                               device_type = ''BLE'', obs_timestamp = 60,
                               scanner_position = (0, 0)\<rparr>,
                             \<lparr>esp32_id = 1, obs_mac_address = ''BB'', rssi = - 55,
                               device_type = ''BLE'', obs_timestamp = 85,
                               scanner_position = (100, 0)\<rparr>],
               estimated_position = Some (20, 30)\<rparr>)]"]
    by (simp add: get_estimated_positions_def get_detected_devices_def)
qed

subsection \<open>The two windows of a record\<close>

lemma keep_recent_positions_late:
  assumes "30 + real (length ps) < updated"
  shows "keep_recent_positions updated ps = []"
proof -
  have "\<forall>x \<in> set (enumerate 0 ps).
          \<not> (case x of (i, pos) \<Rightarrow> updated - (real (length ps) - real i) \<le> 30)"
    using assms by (auto simp: in_set_enumerate_eq)
  then have "filter (\<lambda>(i, pos). updated - (real (length ps) - real i) \<le> 30) (enumerate 0 ps) = []"
    by (simp add: filter_empty_conv)
  then show ?thesis by (simp add: keep_recent_positions_def)
qed

text \<open>
  Claim C2 does not hold of the code. One tick at the clock value 1700000000, from an
  empty table, with one RF estimate one pixel away from one hotspot: the record of
  the device ends with no position and one confidence score.
\<close>

theorem correlated_update_breaks_parallel_windows:
  "map_option (\<lambda>d. (positions d, confidence_scores d))
     (active_detections
        (process_detections
           \<lparr>correlation_threshold = 50, confidence_threshold = 7 / 10, min_detection_time = 5,
            alert_duration = 10\<rparr>
           1700000000
           [\<lparr>mac_address = ''AA:BB:CC:DD:EE:FF'', est_position = (16, 12), est_confidence = 1 / 2\<rparr>]
           [\<lparr>hs_position = (15, 12), hs_area = 10, hs_avg_temp = 35, hs_confidence = 5 / 6,
             hs_frame_id = 7, hs_timestamp = 1700000000\<rparr>]
           \<lparr>active_detections = Map.empty, alerts = []\<rparr>)
        ''AA:BB:CC:DD:EE:FF'')
   = Some ([], [49 / 50])"
  by (simp add: process_detections_def Let_def handle_correlation_def get_or_create_def
      new_detection_def keep_recent_positions_def py_tail_slice_def check_alert_def
      should_trigger_alert_def handle_rf_only_detections_def rf_only_step_def
      handle_thermal_only_detections_def thermal_only_step_def cleanup_old_detections_def
      expired_detections_def restrict_map_def enumerate_eq_zip pixel_def)

text \<open>The same for every correlated update at a clock value beyond 31 plus the length
  of the position window: the comprehension drops every position, and the slice
  \<^verbatim>\<open>[-0:]\<close> keeps every confidence score.\<close>

lemma handle_correlation_late:
  assumes "find (\<lambda>pos_data. est_position pos_data = rf_position corr) rf_positions = Some rf_device"
    and "confidence_threshold cfg \<le> corr_confidence corr"
    and "d0 = get_or_create now rf_thermal_correlation (active_detections st) (mac_address rf_device)"
    and "31 + real (length (positions d0)) < now"
  shows "\<exists>d. active_detections (handle_correlation cfg now corr rf_positions st)
                (mac_address rf_device) = Some d
             \<and> positions d = []
             \<and> confidence_scores d = confidence_scores d0 @ [corr_confidence corr]"
proof -
  have "keep_recent_positions now (positions d0 @ [pixel (thermal_position corr)]) = []"
    using assms(4) by (intro keep_recent_positions_late) simp
  then show ?thesis
    using assms(1,2,3)
    by (simp add: handle_correlation_def Let_def check_alert_def trigger_device_alert_def
        py_tail_slice_def)
qed

text \<open>The RF-only and the thermal-only handlers do keep the two windows of every
  record at the same length.\<close>

lemma trigger_device_alert_parallel:
  "parallel_windows st \<Longrightarrow> parallel_windows (trigger_device_alert py_sum cfg now device_id st)"
  by (auto simp: parallel_windows_def trigger_device_alert_def Let_def split: option.splits if_splits)

lemma check_alert_parallel:
  "parallel_windows st \<Longrightarrow> parallel_windows (check_alert cfg now device_id st)"
  by (simp add: check_alert_def trigger_device_alert_parallel split: option.splits)

lemma append_evidence_parallel:
  assumes "parallel_windows st"
  shows "parallel_windows (append_evidence cfg now kind device_id pos confidence st)"
proof -
  have "length (positions (get_or_create now kind (active_detections st) device_id)) =
        length (confidence_scores (get_or_create now kind (active_detections st) device_id))"
    using assms
    by (auto simp: get_or_create_def new_detection_def parallel_windows_def split: option.splits)
  then have "parallel_windows
     (st\<lparr>active_detections := (active_detections st)(device_id \<mapsto>
          (get_or_create now kind (active_detections st) device_id)
            \<lparr>last_updated := now,
             positions := positions (get_or_create now kind (active_detections st) device_id) @ [pos],
             confidence_scores :=
               confidence_scores (get_or_create now kind (active_detections st) device_id)
                 @ [confidence]\<rparr>)\<rparr>)"
    using assms by (auto simp: parallel_windows_def)
  then show ?thesis
    by (simp add: append_evidence_def Let_def check_alert_parallel)
qed

lemma handle_rf_only_detections_parallel:
  "parallel_windows st \<Longrightarrow>
     parallel_windows (handle_rf_only_detections cfg now rf_positions correlations st)"
  unfolding handle_rf_only_detections_def
  by (induction rf_positions arbitrary: st)
     (simp_all add: rf_only_step_def Let_def append_evidence_parallel)

lemma handle_thermal_only_detections_parallel:
  "parallel_windows st \<Longrightarrow>
     parallel_windows (handle_thermal_only_detections cfg now thermal_hotspots correlations st)"
  unfolding handle_thermal_only_detections_def
  by (induction thermal_hotspots arbitrary: st)
     (simp_all add: thermal_only_step_def Let_def append_evidence_parallel)

end
